theory Spec2Isabelle
  imports Complex_Main "HOL-Library.AList"
begin

section \<open>Python strings and values\<close>

text \<open>
  A Python \<open>str\<close> is a sequence of Unicode code points, so a string is a list of
  natural numbers (the column name of the device number is Cyrillic, and \<open>str.strip\<close>
  removes non-ASCII white space as well). \<open>u\<close> turns an ASCII literal into such a string.
\<close>

type_synonym ustr = "nat list"

definition u :: "string \<Rightarrow> ustr" where
  "u s = map of_char s"

text \<open>
  The values the program handles: what \<open>csv.DictReader\<close> puts into a row (\<open>str\<close>, or
  \<open>None\<close> for a cell that a short line leaves out) and what \<open>r.json()\<close> returns (any JSON
  value). A \<open>PDict\<close> lists the items of a dictionary, whose keys are distinct; JSON
  numbers are integers or fractions.
\<close>

datatype pyval =
    PNone
  | PBool bool
  | PInt int
  | PFloat rat
  | PStr ustr
  | PList "pyval list"
  | PDict "(ustr \<times> pyval) list"

datatype py_error = AttributeError | TypeError | ValueError | KeyError | IndexError

text \<open>Truth value testing (\<open>if x\<close>, \<open>not x\<close>).\<close>

fun truthy :: "pyval \<Rightarrow> bool" where
  "truthy PNone = False"
| "truthy (PBool b) = b"
| "truthy (PInt i) = (i \<noteq> 0)"
| "truthy (PFloat r) = (r \<noteq> 0)"
| "truthy (PStr s) = (s \<noteq> [])"
| "truthy (PList xs) = (xs \<noteq> [])"
| "truthy (PDict kvs) = (kvs \<noteq> [])"

text \<open>\<open>str.isspace\<close> on one code point: the characters \<open>str.strip()\<close> removes.\<close>

definition isspace :: "nat \<Rightarrow> bool" where
  "isspace c = (c \<in> set [9, 10, 11, 12, 13, 28, 29, 30, 31, 32, 133, 160, 5760,
      8192, 8193, 8194, 8195, 8196, 8197, 8198, 8199, 8200, 8201, 8202,
      8232, 8233, 8239, 8287, 12288])"

definition strip :: "ustr \<Rightarrow> ustr" where
  "strip s = rev (dropWhile isspace (rev (dropWhile isspace s)))"

text \<open>\<open>s.replace(c, new)\<close> for a one-character \<open>c\<close>: every occurrence is replaced.\<close>

definition replace_char :: "nat \<Rightarrow> ustr \<Rightarrow> ustr \<Rightarrow> ustr" where
  "replace_char c new s = concat (map (\<lambda>x. if x = c then new else [x]) s)"

text \<open>\<open>s.split(c)\<close> for a one-character separator: never empty, \<open>''''.split(c) = ['''']\<close>.\<close>

fun split_char :: "nat \<Rightarrow> ustr \<Rightarrow> ustr list" where
  "split_char c [] = [[]]"
| "split_char c (x # xs) =
     (if x = c then [] # split_char c xs
      else (case split_char c xs of p # ps \<Rightarrow> (x # p) # ps | [] \<Rightarrow> [[x]]))"

text \<open>
  The operations the program applies to a value whose type it does not check; each
  raises where Python does.
\<close>

definition dget :: "(ustr \<times> pyval) list \<Rightarrow> ustr \<Rightarrow> pyval \<Rightarrow> pyval" where
  \<comment> \<open>\<open>d.get(k, dflt)\<close> on the items of a dictionary\<close>
  "dget kvs k dflt = (case map_of kvs k of None \<Rightarrow> dflt | Some v \<Rightarrow> v)"

definition dict_get :: "pyval \<Rightarrow> ustr \<Rightarrow> pyval \<Rightarrow> py_error + pyval" where
  \<comment> \<open>\<open>d.get(k, dflt)\<close> on any value: only a dictionary has \<open>get\<close>\<close>
  "dict_get d k dflt =
     (case d of PDict kvs \<Rightarrow> Inr (dget kvs k dflt) | _ \<Rightarrow> Inl AttributeError)"

definition index0 :: "pyval \<Rightarrow> py_error + pyval" where
  \<comment> \<open>\<open>x[0]\<close>; the keys of a JSON object are strings, so \<open>0\<close> is never one.\<close>
  "index0 x =
     (case x of
        PList ys \<Rightarrow> (case ys of [] \<Rightarrow> Inl IndexError | y # _ \<Rightarrow> Inr y)
      | PStr s \<Rightarrow> (case s of [] \<Rightarrow> Inl IndexError | c # _ \<Rightarrow> Inr (PStr [c]))
      | PDict kvs \<Rightarrow> Inl KeyError
      | _ \<Rightarrow> Inl TypeError)"

definition str_strip :: "pyval \<Rightarrow> py_error + ustr" where
  \<comment> \<open>\<open>x.strip()\<close>\<close>
  "str_strip x = (case x of PStr s \<Rightarrow> Inr (strip s) | _ \<Rightarrow> Inl AttributeError)"

definition contains_char :: "nat \<Rightarrow> pyval \<Rightarrow> py_error + bool" where
  \<comment> \<open>\<open>c in x\<close> for a one-character string \<open>c\<close>\<close>
  "contains_char c x =
     (case x of
        PStr s \<Rightarrow> Inr (c \<in> set s)
      | PList ys \<Rightarrow> Inr (PStr [c] \<in> set ys)
      | PDict kvs \<Rightarrow> Inr ([c] \<in> set (map fst kvs))
      | _ \<Rightarrow> Inl TypeError)"

definition str_split :: "nat \<Rightarrow> pyval \<Rightarrow> py_error + ustr list" where
  \<comment> \<open>\<open>x.split(c)\<close>\<close>
  "str_split c x = (case x of PStr s \<Rightarrow> Inr (split_char c s) | _ \<Rightarrow> Inl AttributeError)"

section \<open>The library and the outside world\<close>

text \<open>
  A \<open>datetime\<close>, as far as \<open>strftime("%d.%m.%Y")\<close> reads it. The library keeps
  \<open>1 \<le> month \<le> 12\<close>, \<open>1 \<le> day \<le> 31\<close> and \<open>1 \<le> year \<le> 9999\<close> in every object.
\<close>

record datetime =
  dt_year :: nat
  dt_month :: nat
  dt_day :: nat

definition valid_datetime :: "datetime \<Rightarrow> bool" where
  "valid_datetime dt =
     (1 \<le> dt_year dt \<and> dt_year dt \<le> 9999 \<and> 1 \<le> dt_month dt \<and> dt_month dt \<le> 12
      \<and> 1 \<le> dt_day dt \<and> dt_day dt \<le> 31)"

text \<open>
  The library functions the program calls and whose code is not part of it:
  \<^item> \<open>fromisoformat\<close>: \<open>datetime.fromisoformat\<close>, \<open>None\<close> where it raises \<open>ValueError\<close>;
  \<^item> \<open>small_year\<close>: what the C library's \<open>%Y\<close> prints for a year below 1000
    (\<open>99\<close> or \<open>0099\<close>, by platform);
  \<^item> \<open>urlencode\<close>: \<open>urllib.parse.urlencode\<close>, which returns for every string that a
    file can hold (it raises on a lone surrogate only, and decoding a file yields none);
  \<^item> \<open>str_of\<close>: \<open>str(x)\<close> of a value that is not a string.
\<close>

record pylib =
  fromisoformat :: "ustr \<Rightarrow> datetime option"
  small_year :: "nat \<Rightarrow> ustr"
  urlencode :: "(ustr \<times> pyval) list \<Rightarrow> ustr"
  str_of :: "pyval \<Rightarrow> ustr"

fun decimal :: "nat \<Rightarrow> ustr" where
  "decimal n = (if n < 10 then [48 + n] else decimal (n div 10) @ [48 + n mod 10])"

definition two_digits :: "nat \<Rightarrow> ustr" where
  \<comment> \<open>\<open>%d\<close> and \<open>%m\<close>: zero-padded to two digits\<close>
  "two_digits n = (if n < 10 then 48 # decimal n else decimal n)"

definition year_text :: "pylib \<Rightarrow> nat \<Rightarrow> ustr" where
  \<comment> \<open>\<open>%Y\<close>\<close>
  "year_text lib y = (if y < 1000 then small_year lib y else decimal y)"

definition strftime_dmY :: "pylib \<Rightarrow> datetime \<Rightarrow> ustr" where
  \<comment> \<open>\<open>dt.strftime("%d.%m.%Y")\<close>\<close>
  "strftime_dmY lib dt =
     two_digits (dt_day dt) @ u ''.'' @ two_digits (dt_month dt) @ u ''.''
       @ year_text lib (dt_year dt)"

definition fmt :: "pylib \<Rightarrow> pyval \<Rightarrow> ustr" where
  \<comment> \<open>a value inside an f-string: \<open>f"{x}"\<close>\<close>
  "fmt lib x = (case x of PStr s \<Rightarrow> s | _ \<Rightarrow> str_of lib x)"

text \<open>
  The network and the clock. What a request returns and what \<open>datetime.now()\<close>
  reads may depend on everything that happened before: both are functions of the
  trace of the run so far.
\<close>

record request =
  req_url :: ustr
  req_params :: "(ustr \<times> pyval) list"
  req_headers :: "(ustr \<times> ustr) list"
  req_timeout :: nat

datatype event = Get request | Sleep nat

datatype http_result =
    Raises
  | Response nat "pyval option"
    \<comment> \<open>the status code, and the value of \<open>r.json()\<close> (\<open>None\<close> where it raises)\<close>

record world =
  http :: "event list \<Rightarrow> request \<Rightarrow> http_result"
  today :: "event list \<Rightarrow> ustr"
    \<comment> \<open>\<open>datetime.now().strftime("%Y-%m-%d")\<close>\<close>

definition status_ok :: "nat \<Rightarrow> bool" where
  \<comment> \<open>\<open>r.ok\<close>\<close>
  "status_ok st = (\<not> (400 \<le> st \<and> st < 600))"

section \<open>The program\<close>

definition API_BASE :: ustr where
  "API_BASE = u ''https://fgis.gost.ru/fundmetrology/eapi''"

definition TIMEOUT :: nat where
  "TIMEOUT = 30"

definition DELAY_BETWEEN_REQUESTS :: nat where
  "DELAY_BETWEEN_REQUESTS = 1"

subsection \<open>format_date\<close>

definition format_date :: "pylib \<Rightarrow> ustr \<Rightarrow> ustr" where
  "format_date lib iso_date =
     (if iso_date = [] then []
      else (case fromisoformat lib (replace_char 90 (u ''+00:00'') iso_date) of
              Some dt \<Rightarrow> strftime_dmY lib dt
            | None \<Rightarrow> iso_date))"

text \<open>
  The same function on any value, as \<open>main\<close> calls it on a field of the registry's
  record: a false value gives the empty string, and a true value that is not a
  string has no \<open>replace\<close>.
\<close>

definition format_date_any :: "pylib \<Rightarrow> pyval \<Rightarrow> py_error + ustr" where
  "format_date_any lib x =
     (if \<not> truthy x then Inr []
      else (case x of PStr s \<Rightarrow> Inr (format_date lib s) | _ \<Rightarrow> Inl AttributeError))"

subsection \<open>The session and get_latest_vri\<close>

record session =
  sess_headers :: "(ustr \<times> ustr) list"

definition create_session :: session where
  "create_session = \<lparr>sess_headers =
     [(u ''User-Agent'', u ''Mozilla/5.0 (Windows NT 10.0; Win64; x64) AppleWebKit/537.36 (KHTML, like Gecko) Chrome/122.0.0.0 Safari/537.36''),
      (u ''Accept'', u ''application/json, text/plain, */*''),
      (u ''Connection'', u ''keep-alive'')]\<rparr>"

definition session_get ::
  "world \<Rightarrow> session \<Rightarrow> event list \<Rightarrow> ustr \<Rightarrow> (ustr \<times> pyval) list \<Rightarrow> (ustr \<times> ustr) list \<Rightarrow> nat
     \<Rightarrow> http_result \<times> event list" where
  \<comment> \<open>\<open>session.get(url, params=..., headers=..., timeout=...)\<close>: the session's headers
      and the call's own are sent\<close>
  "session_get wd s tr url params headers timeout =
     (let req = \<lparr>req_url = url, req_params = params,
                 req_headers = sess_headers s @ headers, req_timeout = timeout\<rparr>
      in (http wd tr req, tr @ [Get req]))"

definition vri_params :: "ustr \<Rightarrow> ustr \<Rightarrow> (ustr \<times> pyval) list" where
  "vri_params mi_number now_str =
     [(u ''mi_number'', PStr (strip mi_number)),
      (u ''sort'', PStr (u ''verification_date desc'')),
      (u ''rows'', PInt 1),
      (u ''start'', PInt 0),
      (u ''verification_date_start'', PStr (u ''2000-01-01'')),
      (u ''verification_date_end'', PStr now_str)]"

definition full_url :: "pylib \<Rightarrow> ustr \<Rightarrow> ustr \<Rightarrow> ustr" where
  "full_url lib mi_number now_str =
     (API_BASE @ u ''/vri'') @ u ''?'' @ urlencode lib (vri_params mi_number now_str)"

text \<open>Lines 98 to 103: the first item of the decoded body, inside the \<open>try\<close>.\<close>

definition first_item :: "pyval \<Rightarrow> py_error + pyval" where
  "first_item data =
     (case dict_get data (u ''result'') (PDict []) of
        Inl e \<Rightarrow> Inl e
      | Inr res \<Rightarrow>
          (case dict_get res (u ''items'') (PList []) of
             Inl e \<Rightarrow> Inl e
           | Inr items \<Rightarrow> if truthy items then index0 items else Inr PNone))"

text \<open>
  Lines 84 to 93: the request and, after a 429, the pause and the second request.
  The result is the response that the rest of the function reads.
\<close>

definition fetch ::
  "world \<Rightarrow> session \<Rightarrow> event list \<Rightarrow> ustr \<Rightarrow> (ustr \<times> pyval) list \<Rightarrow> http_result \<times> event list" where
  "fetch wd s tr api_url params =
     (case session_get wd s tr api_url params
             [(u ''X-Requested-With'', u ''XMLHttpRequest'')] TIMEOUT of
        (Raises, tr1) \<Rightarrow> (Raises, tr1)
      | (Response st body, tr1) \<Rightarrow>
          if st = 429 then session_get wd s (tr1 @ [Sleep 5]) api_url params [] TIMEOUT
          else (Response st body, tr1))"

definition get_latest_vri ::
  "pylib \<Rightarrow> world \<Rightarrow> session \<Rightarrow> event list \<Rightarrow> ustr \<Rightarrow> (pyval \<times> ustr) \<times> event list" where
  "get_latest_vri lib wd s tr mi_number =
     (let now_str = today wd tr;
          params = vri_params mi_number now_str;
          api_url = API_BASE @ u ''/vri'';
          url = api_url @ u ''?'' @ urlencode lib params
      in case fetch wd s tr api_url params of
           (Raises, tr') \<Rightarrow> ((PNone, url), tr')
         | (Response st body, tr') \<Rightarrow>
             if \<not> status_ok st then ((PNone, url), tr')
             else (case body of
                     None \<Rightarrow> ((PNone, url), tr')
                   | Some data \<Rightarrow>
                       (case first_item data of
                          Inl e \<Rightarrow> ((PNone, url), tr')
                        | Inr item \<Rightarrow> ((item, url), tr'))))"

text \<open>
  The request that \<open>session.get\<close> sends for a lookup, given the headers of the call.
\<close>

definition vri_request :: "session \<Rightarrow> ustr \<Rightarrow> ustr \<Rightarrow> (ustr \<times> ustr) list \<Rightarrow> request" where
  "vri_request s mi_number now_str headers =
     \<lparr>req_url = API_BASE @ u ''/vri'', req_params = vri_params mi_number now_str,
      req_headers = sess_headers s @ headers, req_timeout = TIMEOUT\<rparr>"

text \<open>
  The response that a lookup reads: that of the first request or, after a 429, that
  of the second.
\<close>

definition lookup_response :: "world \<Rightarrow> session \<Rightarrow> event list \<Rightarrow> ustr \<Rightarrow> http_result" where
  "lookup_response wd s tr mi_number =
     fst (fetch wd s tr (API_BASE @ u ''/vri'') (vri_params mi_number (today wd tr)))"

subsection \<open>main\<close>

text \<open>
  A row of \<open>csv.DictReader\<close> is a dictionary from column names to cells; assignment
  \<open>row[k] = v\<close> replaces the value of a key in place or appends the key.
\<close>

type_synonym row = "(ustr \<times> pyval) list"

definition device_column :: ustr where
  \<comment> \<open>the Cyrillic column name of the device number, line 158\<close>
  "device_column = [1085, 1086, 1084, 1077, 1088, 32, 1087, 1088, 1080, 1073, 1086, 1088, 1072]"

definition target_fields :: "ustr list" where
  "target_fields = map u
     [''vri_id'', ''org_title'', ''mit_number'', ''mit_title'', ''mit_notation'',
      ''mi_modification'', ''mi_number'', ''verification_date'', ''valid_date'',
      ''result_docnum'', ''sticker_num'', ''applicability'']"

definition add_target_fields :: "ustr list \<Rightarrow> ustr list" where
  \<comment> \<open>lines 136 to 138\<close>
  "add_target_fields fieldnames =
     foldl (\<lambda>fs field. if field \<in> set fs then fs else fs @ [field]) fieldnames target_fields"

record statistics =
  total :: nat
  already_filled :: nat
  found :: nat
  not_found :: nat
  skipped :: nat

record run_state =
  stats :: statistics
  out_lines :: "pyval list list"
    \<comment> \<open>the rows written after the header, each a list of cells\<close>
  trace :: "event list"

text \<open>
  \<open>csv.DictWriter.writerow\<close>: a key that is no column raises \<open>ValueError\<close> (such is
  the key under which \<open>csv.DictReader\<close> keeps the surplus cells of a line longer than
  the header); the cells are the row's values in the order of the columns, the empty
  string where the row has no such key.
\<close>

definition dict_to_list :: "ustr list \<Rightarrow> row \<Rightarrow> pyval list" where
  "dict_to_list fieldnames r = map (\<lambda>k. dget r k (PStr [])) fieldnames"

definition writerow :: "ustr list \<Rightarrow> row \<Rightarrow> py_error + pyval list" where
  "writerow fieldnames r =
     (if list_all (\<lambda>k. k \<in> set fieldnames) (map fst r)
      then Inr (dict_to_list fieldnames r)
      else Inl ValueError)"

text \<open>Lines 195 to 213: the found branch fills the row from the record \<open>vri\<close>.\<close>

definition enrich :: "pylib \<Rightarrow> ustr \<Rightarrow> pyval \<Rightarrow> row \<Rightarrow> py_error + row" where
  "enrich lib mi_number vri r =
     (case vri of
        PDict kv \<Rightarrow>
          (let g = dget kv;
               r1 = AList.update (u ''org_title'') (g (u ''org_title'') (PStr [])) r;
               r2 = AList.update (u ''mit_number'') (g (u ''mit_number'') (PStr [])) r1;
               r3 = AList.update (u ''mit_title'') (g (u ''mit_title'') (PStr [])) r2;
               r4 = AList.update (u ''mit_notation'') (g (u ''mit_notation'') (PStr [])) r3;
               r5 = AList.update (u ''mi_modification'') (g (u ''mi_modification'') (PStr [])) r4;
               r6 = AList.update (u ''mi_number'') (g (u ''mi_number'') (PStr mi_number)) r5
           in case format_date_any lib (g (u ''verification_date'') (PStr [])) of
                Inl e \<Rightarrow> Inl e
              | Inr vd \<Rightarrow>
                 (case format_date_any lib (g (u ''valid_date'') (PStr [])) of
                    Inl e \<Rightarrow> Inl e
                  | Inr vl \<Rightarrow>
                     (let r7 = AList.update (u ''verification_date'') (PStr vd) r6;
                          r8 = AList.update (u ''valid_date'') (PStr vl) r7;
                          docnum = g (u ''result_docnum'') (PStr []);
                          r9 = AList.update (u ''result_docnum'') docnum r8;
                          r10 = AList.update (u ''sticker_num'') (g (u ''sticker_num'') (PStr [])) r9;
                          r11 = AList.update (u ''applicability'')
                                  (PStr (if truthy (g (u ''applicability'') PNone)
                                         then u ''true'' else u ''false'')) r10;
                          vri_id = g (u ''vri_id'') (PStr []);
                          r12 = AList.update (u ''vri_id'') vri_id r11
                      in if truthy vri_id then Inr r12
                         else (case contains_char 47 docnum of
                                 Inl e \<Rightarrow> Inl e
                               | Inr has_slash \<Rightarrow>
                                   if \<not> has_slash then Inr r12
                                   else (case str_split 47 docnum of
                                           Inl e \<Rightarrow> Inl e
                                         | Inr parts \<Rightarrow>
                                             if 3 \<le> length parts
                                             then Inr (AList.update (u ''vri_id'')
                                                    (PStr (fmt lib (dget r12 (u ''arshin'') (PStr []))
                                                           @ u ''-'' @ parts ! 2)) r12)
                                             else Inr r12)))))
      | _ \<Rightarrow> Inl AttributeError)"

text \<open>One pass of the loop of lines 157 to 220.\<close>

definition count_written :: "run_state \<Rightarrow> statistics \<Rightarrow> pyval list \<Rightarrow> event list \<Rightarrow> run_state" where
  "count_written st sts line tr = \<lparr>stats = sts, out_lines = out_lines st @ [line], trace = tr\<rparr>"

definition process_row ::
  "pylib \<Rightarrow> world \<Rightarrow> session \<Rightarrow> ustr list \<Rightarrow> run_state \<Rightarrow> row \<Rightarrow> py_error + run_state" where
  "process_row lib wd s fieldnames st r =
     (case str_strip (dget r device_column (PStr [])) of
        Inl e \<Rightarrow> Inl e
      | Inr mi_number \<Rightarrow>
         (case str_strip (dget r (u ''vri_id'') (PStr [])) of
            Inl e \<Rightarrow> Inl e
          | Inr existing_vri \<Rightarrow>
             if existing_vri \<noteq> [] then
               (case writerow fieldnames r of
                  Inl e \<Rightarrow> Inl e
                | Inr line \<Rightarrow>
                    Inr (count_written st
                          ((stats st)\<lparr>already_filled := already_filled (stats st) + 1\<rparr>)
                          line (trace st)))
             else if mi_number = [] then
               (case writerow fieldnames r of
                  Inl e \<Rightarrow> Inl e
                | Inr line \<Rightarrow>
                    Inr (count_written st
                          ((stats st)\<lparr>skipped := skipped (stats st) + 1\<rparr>)
                          line (trace st)))
             else
               (case get_latest_vri lib wd s (trace st) mi_number of
                  ((vri, request_url), tr) \<Rightarrow>
                    if \<not> truthy vri then
                      (case writerow fieldnames r of
                         Inl e \<Rightarrow> Inl e
                       | Inr line \<Rightarrow>
                           Inr (count_written st
                                 ((stats st)\<lparr>not_found := not_found (stats st) + 1\<rparr>)
                                 line (tr @ [Sleep DELAY_BETWEEN_REQUESTS])))
                    else
                      (case enrich lib mi_number vri r of
                         Inl e \<Rightarrow> Inl e
                       | Inr r' \<Rightarrow>
                          (case writerow fieldnames r' of
                             Inl e \<Rightarrow> Inl e
                           | Inr line \<Rightarrow>
                               Inr (count_written st
                                     ((stats st)\<lparr>found := found (stats st) + 1\<rparr>)
                                     line (tr @ [Sleep DELAY_BETWEEN_REQUESTS])))))))"

fun run_rows ::
  "pylib \<Rightarrow> world \<Rightarrow> session \<Rightarrow> ustr list \<Rightarrow> run_state \<Rightarrow> row list \<Rightarrow> py_error + run_state" where
  "run_rows lib wd s fieldnames st [] = Inr st"
| "run_rows lib wd s fieldnames st (r # rs) =
     (case process_row lib wd s fieldnames st r of
        Inl e \<Rightarrow> Inl e
      | Inr st' \<Rightarrow> run_rows lib wd s fieldnames st' rs)"

text \<open>
  The whole run. The input file is absent (\<open>None\<close>) or holds the column names and
  the rows; the result of a run that reaches the loop is the header written and
  either the exception that ended the loop or the final state.
\<close>

datatype run_result =
    FileNotFound
  | EmptyInput
  | Ran "ustr list" "py_error + run_state"

definition main :: "pylib \<Rightarrow> world \<Rightarrow> (ustr list \<times> row list) option \<Rightarrow> run_result" where
  "main lib wd file =
     (let s = create_session
      in case file of
           None \<Rightarrow> FileNotFound
         | Some (fieldnames, input_rows) \<Rightarrow>
             if input_rows = [] then EmptyInput
             else (let header = add_target_fields fieldnames;
                       stats0 = \<lparr>total = length input_rows, already_filled = 0, found = 0,
                                  not_found = 0, skipped = 0\<rparr>
                   in Ran header
                        (run_rows lib wd s header
                           \<lparr>stats = stats0, out_lines = [], trace = []\<rparr> input_rows)))"

text \<open>
  Inputs on which no pass of the loop raises: a row whose cells of the device number
  and of \<open>vri_id\<close> are strings and whose keys are columns, and an item of the
  registry that is false or a dictionary with dates that are strings or false and
  with an identifier or a document number that is a string.
\<close>

definition is_str :: "pyval \<Rightarrow> bool" where
  "is_str x = (case x of PStr s \<Rightarrow> True | _ \<Rightarrow> False)"

definition well_formed_row :: "ustr list \<Rightarrow> row \<Rightarrow> bool" where
  "well_formed_row fieldnames r =
     (is_str (dget r device_column (PStr [])) \<and> is_str (dget r (u ''vri_id'') (PStr []))
      \<and> list_all (\<lambda>k. k \<in> set fieldnames) (map fst r))"

text \<open>
  \<open>csv.DictReader\<close> reads a line that has as many cells as the header into a row
  whose keys are the columns and whose cells are strings. A shorter line leaves
  \<open>None\<close> in the cells it has not; a longer line puts its surplus cells, as a list,
  under the key \<open>None\<close>. That key is no string: \<open>restkey\<close> stands for it, a list that
  holds a number beyond the last code point and so is the name of no column.
\<close>

definition restkey :: ustr where
  "restkey = [1114112]"

definition date_like :: "pyval \<Rightarrow> bool" where
  "date_like x = (if truthy x then is_str x else True)"

definition well_typed_item :: "pyval \<Rightarrow> bool" where
  "well_typed_item x =
     (if truthy x then
        (case x of
           PDict kv \<Rightarrow>
             date_like (dget kv (u ''verification_date'') (PStr []))
             \<and> date_like (dget kv (u ''valid_date'') (PStr []))
             \<and> (if truthy (dget kv (u ''vri_id'') (PStr [])) then True
                 else is_str (dget kv (u ''result_docnum'') (PStr [])))
         | _ \<Rightarrow> False)
      else True)"

section \<open>A reference parser\<close>

text \<open>
  \<open>datetime.fromisoformat\<close> is library code. \<open>fromisoformat_core\<close> accepts the strings
  \<open>YYYY-MM-DD\<close>, alone or followed by any one character and \<open>HH:MM\<close> or \<open>HH:MM:SS\<close>
  with an optional offset \<open>+HH:MM\<close> or \<open>-HH:MM\<close>, for a date of the calendar: a part
  of what every version of the library accepts, read as the library reads it.
\<close>

definition is_digit :: "nat \<Rightarrow> bool" where
  "is_digit c = (48 \<le> c \<and> c \<le> 57)"

definition number :: "ustr \<Rightarrow> nat option" where
  "number s =
     (if s \<noteq> [] \<and> list_all is_digit s then Some (foldl (\<lambda>a c. 10 * a + (c - 48)) 0 s)
      else None)"

definition is_leap :: "nat \<Rightarrow> bool" where
  "is_leap y = (y mod 4 = 0 \<and> (y mod 100 \<noteq> 0 \<or> y mod 400 = 0))"

definition days_in_month :: "nat \<Rightarrow> nat \<Rightarrow> nat" where
  "days_in_month y m =
     (if m = 2 then (if is_leap y then 29 else 28)
      else if m \<in> set [4, 6, 9, 11] then 30 else 31)"

definition parse_date :: "ustr \<Rightarrow> datetime option" where
  "parse_date s =
     (if length s \<noteq> 10 \<or> s ! 4 \<noteq> 45 \<or> s ! 7 \<noteq> 45 then None
      else (case (number (take 4 s), number (take 2 (drop 5 s)), number (drop 8 s)) of
              (Some y, Some m, Some d) \<Rightarrow>
                if 1 \<le> y \<and> 1 \<le> m \<and> m \<le> 12 \<and> 1 \<le> d \<and> d \<le> days_in_month y m
                then Some \<lparr>dt_year = y, dt_month = m, dt_day = d\<rparr>
                else None
            | _ \<Rightarrow> None))"

definition two_below :: "nat \<Rightarrow> ustr \<Rightarrow> bool" where
  \<comment> \<open>two digits that read a number below the limit\<close>
  "two_below b s =
     (length s = 2 \<and> (case number s of None \<Rightarrow> False | Some n \<Rightarrow> n < b))"

definition valid_clock :: "ustr \<Rightarrow> bool" where
  "valid_clock t =
     (if length t = 5 then two_below 24 (take 2 t) \<and> t ! 2 = 58 \<and> two_below 60 (drop 3 t)
      else if length t = 8 then
        two_below 24 (take 2 t) \<and> t ! 2 = 58 \<and> two_below 60 (take 2 (drop 3 t))
        \<and> t ! 5 = 58 \<and> two_below 60 (drop 6 t)
      else False)"

definition valid_offset :: "ustr \<Rightarrow> bool" where
  "valid_offset z =
     (length z = 6 \<and> (z ! 0 = 43 \<or> z ! 0 = 45) \<and> two_below 24 (take 2 (drop 1 z))
      \<and> z ! 3 = 58 \<and> two_below 60 (drop 4 z))"

definition valid_time :: "ustr \<Rightarrow> bool" where
  "valid_time t =
     (valid_clock t
      \<or> (6 \<le> length t \<and> valid_clock (take (length t - 6) t)
          \<and> valid_offset (drop (length t - 6) t)))"

definition fromisoformat_core :: "ustr \<Rightarrow> datetime option" where
  "fromisoformat_core s =
     (case parse_date (take 10 s) of
        None \<Rightarrow> None
      | Some dt \<Rightarrow>
          if length s = 10 then Some dt
          else if valid_time (drop 11 s) then Some dt
          else None)"

text \<open>
  A library for running the model: the reference parser, a C library that prints a
  small year without padding, and place holders for the functions whose text the
  theorems do not read.
\<close>

definition ref_lib :: pylib where
  "ref_lib = \<lparr>fromisoformat = fromisoformat_core, small_year = decimal,
              urlencode = (\<lambda>ps. concat (map fst ps)), str_of = (\<lambda>x. u ''?'')\<rparr>"

section \<open>Concrete inputs\<close>

text \<open>
  Registries, records and rows on which the model is run: a registry that cannot
  be reached, one that answers with a record, one that answers 429 to the first
  request of the run, and one that has no record.
\<close>

definition demo_record :: pyval where
  "demo_record = PDict
     [(u ''org_title'', PStr (u ''Lab'')),
      (u ''mi_number'', PStr (u ''123'')),
      (u ''verification_date'', PStr (u ''2024-03-05T10:00:00Z'')),
      (u ''valid_date'', PStr (u ''2025-03-04'')),
      (u ''result_docnum'', PStr (u ''A/B/1234/5'')),
      (u ''applicability'', PBool True),
      (u ''vri_id'', PStr [])]"

definition body_of :: "pyval list \<Rightarrow> pyval" where
  "body_of items = PDict [(u ''result'', PDict [(u ''items'', PList items)])]"

definition dead_world :: world where
  "dead_world = \<lparr>http = (\<lambda>tr req. Raises), today = (\<lambda>tr. u ''2026-01-15'')\<rparr>"

definition calm_world :: world where
  "calm_world = \<lparr>http = (\<lambda>tr req. Response 200 (Some (body_of [demo_record]))),
                 today = (\<lambda>tr. u ''2026-01-15'')\<rparr>"

definition busy_world :: world where
  "busy_world = \<lparr>http = (\<lambda>tr req. if tr = [] then Response 429 None
                                   else Response 200 (Some (body_of [demo_record]))),
                 today = (\<lambda>tr. u ''2026-01-15'')\<rparr>"

definition empty_world :: world where
  "empty_world = \<lparr>http = (\<lambda>tr req. Response 200 (Some (body_of []))),
                  today = (\<lambda>tr. u ''2026-01-15'')\<rparr>"

definition demo_fieldnames :: "ustr list" where
  "demo_fieldnames = [device_column, u ''vri_id'', u ''arshin'']"

definition demo_row :: row where
  "demo_row = [(device_column, PStr (u ''123'')), (u ''vri_id'', PStr []),
               (u ''arshin'', PStr (u ''77''))]"

definition filled_row :: row where
  "filled_row = [(device_column, PStr (u ''123'')), (u ''vri_id'', PStr (u ''1-55'')),
                 (u ''arshin'', PStr (u ''77''))]"

definition blank_id_row :: row where
  "blank_id_row = [(device_column, PStr (u ''123'')), (u ''vri_id'', PStr (u '' '')),
                   (u ''arshin'', PStr (u ''77''))]"

definition no_number_row :: row where
  "no_number_row = [(device_column, PStr (u ''  '')), (u ''vri_id'', PStr []),
                    (u ''arshin'', PStr (u ''77''))]"

text \<open>
  A registry whose first item is a string and one whose \<open>items\<close> is a string; two
  lines with one cell too many, one with a blank device number and one with a
  \<open>vri_id\<close>; a line that ends after its first cell, and such a line under a header
  that starts with \<open>vri_id\<close>.
\<close>

definition odd_world :: world where
  "odd_world = \<lparr>http = (\<lambda>tr req. Response 200 (Some (body_of [PStr (u ''x'')]))),
                today = (\<lambda>tr. u ''2026-01-15'')\<rparr>"

definition text_world :: world where
  "text_world =
     \<lparr>http = (\<lambda>tr req. Response 200
                (Some (PDict [(u ''result'', PDict [(u ''items'', PStr (u ''abc''))])]))),
      today = (\<lambda>tr. u ''2026-01-15'')\<rparr>"

definition long_line_row :: row where
  "long_line_row = [(device_column, PStr (u ''  '')), (u ''vri_id'', PStr []),
                    (u ''arshin'', PStr (u ''77'')), (restkey, PList [PStr (u ''x'')])]"

definition long_filled_row :: row where
  "long_filled_row = [(device_column, PStr (u ''123'')), (u ''vri_id'', PStr (u ''1-55'')),
                      (u ''arshin'', PStr (u ''77'')), (restkey, PList [PStr (u ''x'')])]"

definition cut_line_row :: row where
  "cut_line_row = [(device_column, PStr (u ''  '')), (u ''vri_id'', PNone),
                   (u ''arshin'', PNone)]"

definition swapped_fieldnames :: "ustr list" where
  "swapped_fieldnames = [u ''vri_id'', device_column]"

definition short_line_row :: row where
  "short_line_row = [(u ''vri_id'', PStr (u ''1-55'')), (device_column, PNone)]"

definition state0 :: "nat \<Rightarrow> run_state" where
  "state0 n = \<lparr>stats = \<lparr>total = n, already_filled = 0, found = 0, not_found = 0,
                          skipped = 0\<rparr>,
               out_lines = [], trace = []\<rparr>"

section \<open>Facts about strings and the reference parser\<close>

declare decimal.simps [simp del]

lemma decimal_small: "n < 10 \<Longrightarrow> decimal n = [48 + n]"
  by (simp add: decimal.simps)

lemma decimal_step: "10 \<le> n \<Longrightarrow> decimal n = decimal (n div 10) @ [48 + n mod 10]"
  by (subst decimal.simps) simp

lemma two_digits_eq: "n < 100 \<Longrightarrow> two_digits n = [48 + n div 10, 48 + n mod 10]"
  by (cases "n < 10") (simp_all add: two_digits_def decimal_small decimal_step)

lemma decimal_four:
  "1000 \<le> n \<Longrightarrow> n \<le> 9999 \<Longrightarrow>
     decimal n = [48 + n div 1000, 48 + n div 100 mod 10, 48 + n div 10 mod 10, 48 + n mod 10]"
proof -
  assume a: "1000 \<le> n" "n \<le> 9999"
  have 1: "decimal n = decimal (n div 10) @ [48 + n mod 10]" using a by (simp add: decimal_step)
  have 2: "decimal (n div 10) = decimal (n div 10 div 10) @ [48 + n div 10 mod 10]"
    using a by (simp add: decimal_step)
  have 3: "decimal (n div 10 div 10) = decimal (n div 10 div 10 div 10) @ [48 + n div 10 div 10 mod 10]"
    using a by (simp add: decimal_step)
  have 4: "decimal (n div 10 div 10 div 10) = [48 + n div 10 div 10 div 10]"
    using a by (simp add: decimal_small)
  have 5: "n div 10 div 10 = n div 100" "n div 10 div 10 div 10 = n div 1000"
    by (simp_all add: div_mult2_eq[symmetric])
  show ?thesis using 1 2 3 4 5 by simp
qed

lemma u_simps: "u [] = []" "u (c # cs) = of_char c # u cs"
  by (simp_all add: u_def)

lemma format_date_empty: "format_date lib [] = []"
  by (simp add: format_date_def)

lemma format_date_unparsed:
  "fromisoformat lib (replace_char 90 (u ''+00:00'') s) = None \<Longrightarrow> format_date lib s = s"
  by (simp add: format_date_def)

lemma format_date_parsed:
  "s \<noteq> [] \<Longrightarrow> fromisoformat lib (replace_char 90 (u ''+00:00'') s) = Some dt \<Longrightarrow>
     format_date lib s = strftime_dmY lib dt"
  by (simp add: format_date_def)

lemma strftime_shape:
  "valid_datetime dt \<Longrightarrow>
     strftime_dmY lib dt =
       [48 + dt_day dt div 10, 48 + dt_day dt mod 10, 46,
        48 + dt_month dt div 10, 48 + dt_month dt mod 10, 46] @ year_text lib (dt_year dt)"
  by (simp add: strftime_dmY_def valid_datetime_def two_digits_eq u_def)

lemma foldl_digits_bound:
  "list_all is_digit s \<Longrightarrow> foldl (\<lambda>a c. 10 * a + (c - 48)) a s < (a + 1) * 10 ^ length s"
proof (induction s arbitrary: a)
  case Nil
  then show ?case by simp
next
  case (Cons c s)
  then have dc: "is_digit c" and rest: "list_all is_digit s"
    by simp_all
  from dc have c: "c - 48 \<le> 9"
    unfolding is_digit_def by arith
  have "foldl (\<lambda>a c. 10 * a + (c - 48)) (10 * a + (c - 48)) s
          < (10 * a + (c - 48) + 1) * 10 ^ length s"
    using Cons.IH[OF rest] .
  also have "\<dots> \<le> (10 * a + 10) * 10 ^ length s"
    using c by (intro mult_right_mono) auto
  also have "\<dots> = (a + 1) * 10 ^ length (c # s)"
    by (simp add: algebra_simps)
  finally show ?case by simp
qed

lemma number_Some:
  "number s = Some n \<Longrightarrow> list_all is_digit s \<and> n < 10 ^ length s"
  using foldl_digits_bound[of s 0] by (auto simp: number_def split: if_splits)

lemma days_in_month_le: "days_in_month y m \<le> 31"
  by (simp add: days_in_month_def)

lemma parse_date_Some:
  assumes "parse_date s = Some dt"
  shows "valid_datetime dt \<and> list_all is_digit (take 4 s)"
proof -
  from assms obtain y m d where
    len: "length s = 10" and y: "number (take 4 s) = Some y"
    and m: "number (take 2 (drop 5 s)) = Some m" and d: "number (drop 8 s) = Some d"
    and rng: "1 \<le> y" "1 \<le> m" "m \<le> 12" "1 \<le> d" "d \<le> days_in_month y m"
    and dt: "dt = \<lparr>dt_year = y, dt_month = m, dt_day = d\<rparr>"
    by (auto simp: parse_date_def split: if_splits option.splits)
  from number_Some[OF y] len have "list_all is_digit (take 4 s)" and "y < 10 ^ 4"
    by auto
  moreover have "d \<le> 31" using rng(5) days_in_month_le[of y m] by simp
  ultimately show ?thesis using rng dt by (simp add: valid_datetime_def)
qed

lemma fromisoformat_core_Some:
  assumes "fromisoformat_core t = Some dt"
  shows "valid_datetime dt \<and> list_all is_digit (take 4 t)"
proof -
  from assms have "parse_date (take 10 t) = Some dt"
    by (auto simp: fromisoformat_core_def split: option.splits if_splits)
  from parse_date_Some[OF this] show ?thesis by simp
qed

lemma ref_lib_valid: "\<forall>t dt. fromisoformat ref_lib t = Some dt \<longrightarrow> valid_datetime dt"
  using fromisoformat_core_Some by (simp add: ref_lib_def)

lemma ref_lib_digits: "\<forall>t. \<not> list_all is_digit (take 4 t) \<longrightarrow> fromisoformat ref_lib t = None"
  by (simp add: ref_lib_def) (metis fromisoformat_core_Some not_Some_eq)

subsection \<open>The contract of format_date\<close>

text \<open>
  C1 (corrected). \<open>format_date\<close> of the empty string is the empty string. A string
  that is not empty is judged by the library's parser, not by ISO 8601: when
  \<open>datetime.fromisoformat\<close> accepts it (with every \<open>Z\<close> replaced by \<open>+00:00\<close>), the
  result is the parsed date as two digits of the day, a dot, two digits of the month,
  a dot and the year, which has four digits from the year 1000 on; when the parser
  rejects it, the result is the input. No branch raises.
\<close>

theorem format_date_contract:
  "format_date lib [] = []
   \<and> (s \<noteq> [] \<and> fromisoformat lib (replace_char 90 (u ''+00:00'') s) = None
        \<longrightarrow> format_date lib s = s)
   \<and> (s \<noteq> [] \<and> fromisoformat lib (replace_char 90 (u ''+00:00'') s) = Some dt
        \<and> valid_datetime dt
        \<longrightarrow> format_date lib s =
              [48 + dt_day dt div 10, 48 + dt_day dt mod 10, 46,
               48 + dt_month dt div 10, 48 + dt_month dt mod 10, 46]
              @ year_text lib (dt_year dt)
            \<and> (1000 \<le> dt_year dt \<longrightarrow>
                 year_text lib (dt_year dt) =
                   [48 + dt_year dt div 1000, 48 + dt_year dt div 100 mod 10,
                    48 + dt_year dt div 10 mod 10, 48 + dt_year dt mod 10]))"
proof (intro conjI impI)
  show "format_date lib [] = []" by (rule format_date_empty)
next
  assume "s \<noteq> [] \<and> fromisoformat lib (replace_char 90 (u ''+00:00'') s) = None"
  then show "format_date lib s = s" by (simp add: format_date_unparsed)
next
  assume a: "s \<noteq> [] \<and> fromisoformat lib (replace_char 90 (u ''+00:00'') s) = Some dt
    \<and> valid_datetime dt"
  then show "format_date lib s =
      [48 + dt_day dt div 10, 48 + dt_day dt mod 10, 46,
       48 + dt_month dt div 10, 48 + dt_month dt mod 10, 46] @ year_text lib (dt_year dt)"
    by (simp add: format_date_parsed strftime_shape)
next
  assume a: "s \<noteq> [] \<and> fromisoformat lib (replace_char 90 (u ''+00:00'') s) = Some dt
    \<and> valid_datetime dt" and y: "1000 \<le> dt_year dt"
  then have "dt_year dt \<le> 9999" by (simp add: valid_datetime_def)
  with y show "year_text lib (dt_year dt) =
      [48 + dt_year dt div 1000, 48 + dt_year dt div 100 mod 10,
       48 + dt_year dt div 10 mod 10, 48 + dt_year dt mod 10]"
    by (simp add: year_text_def decimal_four)
qed

lemma parse_example:
  "fromisoformat ref_lib (replace_char 90 (u ''+00:00'') (u ''2024-03-05T10:00:00Z''))
     = Some \<lparr>dt_year = 2024, dt_month = 3, dt_day = 5\<rparr>"
  by code_simp

lemma parse_example_fails:
  "fromisoformat ref_lib (replace_char 90 (u ''+00:00'') (u ''05.03.2024'')) = None"
  by code_simp

theorem format_date_contract_witness:
  "u ''2024-03-05T10:00:00Z'' \<noteq> []
   \<and> fromisoformat ref_lib (replace_char 90 (u ''+00:00'') (u ''2024-03-05T10:00:00Z''))
       = Some \<lparr>dt_year = 2024, dt_month = 3, dt_day = 5\<rparr>
   \<and> valid_datetime \<lparr>dt_year = 2024, dt_month = 3, dt_day = 5\<rparr>
   \<and> format_date ref_lib (u ''2024-03-05T10:00:00Z'') = u ''05.03.2024''
   \<and> u ''05.03.2024'' \<noteq> []
   \<and> fromisoformat ref_lib (replace_char 90 (u ''+00:00'') (u ''05.03.2024'')) = None
   \<and> format_date ref_lib (u ''05.03.2024'') = u ''05.03.2024''"
  using format_date_contract[of ref_lib "u ''2024-03-05T10:00:00Z''"
          "\<lparr>dt_year = 2024, dt_month = 3, dt_day = 5\<rparr>"]
        format_date_contract[of ref_lib "u ''05.03.2024''"
          "\<lparr>dt_year = 2024, dt_month = 3, dt_day = 5\<rparr>"]
        parse_example parse_example_fails
  by (simp add: valid_datetime_def u_def year_text_def)

text \<open>
  The claim as stated fails: \<open>2024-01-01x10:00\<close> has an \<open>x\<close> where ISO 8601 wants
  a \<open>T\<close>, the parser accepts any character there, and the string is not returned
  unchanged.
\<close>

theorem format_date_non_iso_counterexample:
  "u ''2024-01-01x10:00'' \<noteq> []
   \<and> u ''2024-01-01x10:00'' ! 10 = 120
   \<and> format_date ref_lib (u ''2024-01-01x10:00'') = u ''01.01.2024''
   \<and> format_date ref_lib (u ''2024-01-01x10:00'') \<noteq> u ''2024-01-01x10:00''"
  by code_simp

subsection \<open>format_date is idempotent\<close>

lemma list_all_take: "list_all P xs \<Longrightarrow> list_all P (take n xs)"
  by (auto simp: list_all_iff dest: in_set_takeD)

lemma replace_char_Cons:
  "replace_char c new (x # xs) = (if x = c then new else [x]) @ replace_char c new xs"
  by (simp add: replace_char_def)

text \<open>
  C10. \<open>format_date (format_date s) = format_date s\<close> for every string \<open>s\<close>, for
  every library whose parser returns dates of the calendar only and rejects a string
  whose first four characters are not all digits (the output starts with two digits
  and a dot).
\<close>

theorem format_date_idempotent:
  assumes valid: "\<forall>t dt. fromisoformat lib t = Some dt \<longrightarrow> valid_datetime dt"
    and digits: "\<forall>t. \<not> list_all is_digit (take 4 t) \<longrightarrow> fromisoformat lib t = None"
  shows "format_date lib (format_date lib s) = format_date lib s"
proof (cases "s = []")
  case True
  then show ?thesis by (simp add: format_date_empty)
next
  case False
  show ?thesis
  proof (cases "fromisoformat lib (replace_char 90 (u ''+00:00'') s)")
    case None
    then have "format_date lib s = s" by (rule format_date_unparsed)
    then show ?thesis by simp
  next
    case (Some dt)
    with valid have v: "valid_datetime dt" by blast
    define out where "out = format_date lib s"
    have out: "out = [48 + dt_day dt div 10, 48 + dt_day dt mod 10, 46,
        48 + dt_month dt div 10, 48 + dt_month dt mod 10, 46] @ year_text lib (dt_year dt)"
      using False Some v by (simp add: out_def format_date_parsed strftime_shape)
    have d: "dt_day dt div 10 \<le> 3" "dt_day dt mod 10 \<le> 9"
      using v by (auto simp: valid_datetime_def)
    have "take 3 (replace_char 90 (u ''+00:00'') out) =
        [48 + dt_day dt div 10, 48 + dt_day dt mod 10, 46]"
      using d by (simp add: out replace_char_Cons)
    then have "\<not> list_all is_digit (take 3 (replace_char 90 (u ''+00:00'') out))"
      by (simp add: is_digit_def)
    then have "\<not> list_all is_digit (take 4 (replace_char 90 (u ''+00:00'') out))"
      using list_all_take[of is_digit "take 4 (replace_char 90 (u ''+00:00'') out)" 3]
      by auto
    with digits have "fromisoformat lib (replace_char 90 (u ''+00:00'') out) = None"
      by blast
    then have "format_date lib out = out" by (rule format_date_unparsed)
    then show ?thesis by (simp add: out_def)
  qed
qed

theorem format_date_idempotent_witness:
  "format_date ref_lib (u ''2024-03-05T10:00:00Z'') = u ''05.03.2024''
   \<and> format_date ref_lib (format_date ref_lib (u ''2024-03-05T10:00:00Z''))
       = format_date ref_lib (u ''2024-03-05T10:00:00Z'')"
proof -
  have "format_date ref_lib (u ''2024-03-05T10:00:00Z'') = u ''05.03.2024''"
    by code_simp
  then show ?thesis
    using format_date_idempotent[OF ref_lib_valid ref_lib_digits, of "u ''2024-03-05T10:00:00Z''"]
    by simp
qed

section \<open>The registry client\<close>

lemma get_latest_vri_url:
  "snd (fst (get_latest_vri lib wd s tr mi)) = full_url lib mi (today wd tr)"
  by (simp add: get_latest_vri_def full_url_def Let_def
      split: prod.splits http_result.splits option.splits sum.splits)

lemma get_latest_vri_trace:
  "snd (get_latest_vri lib wd s tr mi)
     = snd (fetch wd s tr (API_BASE @ u ''/vri'') (vri_params mi (today wd tr)))"
  by (simp add: get_latest_vri_def Let_def
      split: prod.splits http_result.splits option.splits sum.splits)

lemma get_latest_vri_item:
  "fst (fst (get_latest_vri lib wd s tr mi)) =
     (case lookup_response wd s tr mi of
        Raises \<Rightarrow> PNone
      | Response st body \<Rightarrow>
          if \<not> status_ok st then PNone
          else (case body of
                  None \<Rightarrow> PNone
                | Some data \<Rightarrow> (case first_item data of Inl e \<Rightarrow> PNone | Inr item \<Rightarrow> item)))"
  by (simp add: get_latest_vri_def lookup_response_def Let_def
      split: prod.splits http_result.splits option.splits sum.splits)

lemma first_item_list:
  "dget kv (u ''result'') (PDict []) = PDict rs \<Longrightarrow> dget rs (u ''items'') (PList []) = PList items \<Longrightarrow>
     first_item (PDict kv) = (case items of [] \<Rightarrow> Inr PNone | x # _ \<Rightarrow> Inr x)"
  by (simp add: first_item_def dict_get_def index0_def split: list.splits)

text \<open>
  \<open>get_latest_vri\<close> returns a pair on every path, the second component being the
  query URL it built. The first component is \<open>None\<close> when the request raises, when
  the status is not a success, when the body does not decode, when reading the first
  item of the decoded body raises, and when the list of items is empty; it is the
  first item when the list has one.
\<close>

lemma get_latest_vri_cases:
  "snd (fst (get_latest_vri lib wd s tr mi)) = full_url lib mi (today wd tr)
   \<and> (lookup_response wd s tr mi = Raises
        \<longrightarrow> fst (fst (get_latest_vri lib wd s tr mi)) = PNone)
   \<and> (lookup_response wd s tr mi = Response st body \<and> \<not> status_ok st
        \<longrightarrow> fst (fst (get_latest_vri lib wd s tr mi)) = PNone)
   \<and> (lookup_response wd s tr mi = Response st None
        \<longrightarrow> fst (fst (get_latest_vri lib wd s tr mi)) = PNone)
   \<and> (lookup_response wd s tr mi = Response st (Some data) \<and> first_item data = Inl e
        \<longrightarrow> fst (fst (get_latest_vri lib wd s tr mi)) = PNone)
   \<and> (lookup_response wd s tr mi = Response st (Some (PDict kv)) \<and> status_ok st
        \<and> dget kv (u ''result'') (PDict []) = PDict rs
        \<and> dget rs (u ''items'') (PList []) = PList []
        \<longrightarrow> fst (fst (get_latest_vri lib wd s tr mi)) = PNone)
   \<and> (lookup_response wd s tr mi = Response st (Some (PDict kv)) \<and> status_ok st
        \<and> dget kv (u ''result'') (PDict []) = PDict rs
        \<and> dget rs (u ''items'') (PList []) = PList (item # items)
        \<longrightarrow> fst (fst (get_latest_vri lib wd s tr mi)) = item)"
  by (auto simp: get_latest_vri_url get_latest_vri_item first_item_list
      split: option.splits)

subsection \<open>The retry after a 429\<close>

lemma fetch_429:
  assumes "http wd tr (vri_request s mi (today wd tr) [(u ''X-Requested-With'', u ''XMLHttpRequest'')])
             = Response 429 body"
  shows "fetch wd s tr (API_BASE @ u ''/vri'') (vri_params mi (today wd tr)) =
           (http wd (tr @ [Get (vri_request s mi (today wd tr)
                                 [(u ''X-Requested-With'', u ''XMLHttpRequest'')]), Sleep 5])
                 (vri_request s mi (today wd tr) []),
            tr @ [Get (vri_request s mi (today wd tr)
                        [(u ''X-Requested-With'', u ''XMLHttpRequest'')]),
                  Sleep 5,
                  Get (vri_request s mi (today wd tr) [])])"
  using assms by (simp add: fetch_def session_get_def vri_request_def Let_def)

lemma fetch_not_429:
  assumes "http wd tr (vri_request s mi (today wd tr) [(u ''X-Requested-With'', u ''XMLHttpRequest'')])
             = Response st body" "st \<noteq> 429"
  shows "fetch wd s tr (API_BASE @ u ''/vri'') (vri_params mi (today wd tr)) =
           (Response st body,
            tr @ [Get (vri_request s mi (today wd tr)
                        [(u ''X-Requested-With'', u ''XMLHttpRequest'')])])"
  using assms by (simp add: fetch_def session_get_def vri_request_def Let_def)

lemma fetch_raises:
  assumes "http wd tr (vri_request s mi (today wd tr) [(u ''X-Requested-With'', u ''XMLHttpRequest'')])
             = Raises"
  shows "fetch wd s tr (API_BASE @ u ''/vri'') (vri_params mi (today wd tr)) =
           (Raises,
            tr @ [Get (vri_request s mi (today wd tr)
                        [(u ''X-Requested-With'', u ''XMLHttpRequest'')])])"
  using assms by (simp add: fetch_def session_get_def vri_request_def Let_def)

text \<open>
  C4 (a defect of the code). After a first response with status 429 the client
  sleeps 5 and sends one more request, whose response is the one the lookup reads,
  whatever it is. The second request has the URL and the parameters of the first,
  but only the headers of the session: the header \<open>X-Requested-With\<close> that line 87
  gives to the first request is missing from the call of line 93, so the query is
  not reissued with the same headers.
\<close>

theorem retry_drops_header:
  assumes "http wd tr (vri_request s mi (today wd tr) [(u ''X-Requested-With'', u ''XMLHttpRequest'')])
             = Response 429 body"
  shows "snd (get_latest_vri lib wd s tr mi) =
           tr @ [Get (vri_request s mi (today wd tr)
                       [(u ''X-Requested-With'', u ''XMLHttpRequest'')]),
                 Sleep 5,
                 Get (vri_request s mi (today wd tr) [])]
         \<and> lookup_response wd s tr mi =
             http wd (tr @ [Get (vri_request s mi (today wd tr)
                                  [(u ''X-Requested-With'', u ''XMLHttpRequest'')]), Sleep 5])
                  (vri_request s mi (today wd tr) [])
         \<and> req_url (vri_request s mi (today wd tr) []) =
             req_url (vri_request s mi (today wd tr) [(u ''X-Requested-With'', u ''XMLHttpRequest'')])
         \<and> req_params (vri_request s mi (today wd tr) []) =
             req_params (vri_request s mi (today wd tr) [(u ''X-Requested-With'', u ''XMLHttpRequest'')])
         \<and> req_headers (vri_request s mi (today wd tr) []) = sess_headers s
         \<and> req_headers (vri_request s mi (today wd tr) []) \<noteq>
             req_headers (vri_request s mi (today wd tr) [(u ''X-Requested-With'', u ''XMLHttpRequest'')])"
  using fetch_429[OF assms]
  by (simp add: get_latest_vri_trace lookup_response_def vri_request_def)

theorem retry_drops_header_witness:
  "http busy_world [] (vri_request create_session (u ''123'') (today busy_world [])
       [(u ''X-Requested-With'', u ''XMLHttpRequest'')]) = Response 429 None
   \<and> snd (get_latest_vri ref_lib busy_world create_session [] (u ''123'')) =
       [Get (vri_request create_session (u ''123'') (u ''2026-01-15'')
              [(u ''X-Requested-With'', u ''XMLHttpRequest'')]),
        Sleep 5,
        Get (vri_request create_session (u ''123'') (u ''2026-01-15'') [])]
   \<and> map_of (req_headers (vri_request create_session (u ''123'') (u ''2026-01-15'')
              [(u ''X-Requested-With'', u ''XMLHttpRequest'')])) (u ''X-Requested-With'')
       = Some (u ''XMLHttpRequest'')
   \<and> map_of (req_headers (vri_request create_session (u ''123'') (u ''2026-01-15'') []))
         (u ''X-Requested-With'') = None
   \<and> fst (fst (get_latest_vri ref_lib busy_world create_session [] (u ''123''))) = demo_record"
proof -
  have h: "http busy_world [] (vri_request create_session (u ''123'') (today busy_world [])
       [(u ''X-Requested-With'', u ''XMLHttpRequest'')]) = Response 429 None"
    by (simp add: busy_world_def)
  have t: "today busy_world [] = u ''2026-01-15''"
    by (simp add: busy_world_def)
  have hd1: "map_of (req_headers (vri_request create_session (u ''123'') (u ''2026-01-15'')
              [(u ''X-Requested-With'', u ''XMLHttpRequest'')])) (u ''X-Requested-With'')
       = Some (u ''XMLHttpRequest'')"
    by (simp add: vri_request_def create_session_def u_def)
  have hd2: "map_of (req_headers (vri_request create_session (u ''123'') (u ''2026-01-15'') []))
         (u ''X-Requested-With'') = None"
    by (simp add: vri_request_def create_session_def u_def)
  have r: "http busy_world ([] @ [Get (vri_request create_session (u ''123'') (u ''2026-01-15'')
                                  [(u ''X-Requested-With'', u ''XMLHttpRequest'')]), Sleep 5])
                  (vri_request create_session (u ''123'') (u ''2026-01-15'') [])
      = Response 200 (Some (body_of [demo_record]))"
    by (simp add: busy_world_def)
  have f: "first_item (body_of [demo_record]) = Inr demo_record"
    by (simp add: first_item_def body_of_def dict_get_def dget_def index0_def u_def)
  have i: "fst (fst (get_latest_vri ref_lib busy_world create_session [] (u ''123''))) = demo_record"
    using retry_drops_header[OF h, of ref_lib] r f t
    by (simp add: get_latest_vri_item status_ok_def)
  show ?thesis
    using retry_drops_header[OF h, of ref_lib] h t hd1 hd2 i by simp
qed

section \<open>One row\<close>

lemma u_eq_iff [simp]: "u a = u b \<longleftrightarrow> a = b"
  by (simp add: u_def inj_map_eq_map[OF inj_of_char])

lemma u_Nil_iff [simp]: "u s = [] \<longleftrightarrow> s = []" "[] = u s \<longleftrightarrow> s = []"
  by (auto simp: u_def)

lemma u_ascii: "c \<in> set (u s) \<Longrightarrow> c < 256"
  by (auto simp: u_def)

lemma device_column_neq [simp]: "device_column \<noteq> u s" "u s \<noteq> device_column"
proof -
  have "1085 \<in> set device_column" by (simp add: device_column_def)
  then show "device_column \<noteq> u s" using u_ascii[of 1085 s] by auto
  then show "u s \<noteq> device_column" by simp
qed

lemma distinct_target_fields: "distinct target_fields"
  by (simp add: target_fields_def)

lemma length_target_fields: "length target_fields = 12"
  by (simp add: target_fields_def)

lemma foldl_append_missing:
  "distinct ts \<Longrightarrow>
     foldl (\<lambda>fs field. if field \<in> set fs then fs else fs @ [field]) fs ts
       = fs @ filter (\<lambda>f. f \<notin> set fs) ts"
proof (induction ts arbitrary: fs)
  case Nil
  then show ?case by simp
next
  case (Cons t ts)
  then have d: "distinct ts" and t: "t \<notin> set ts" by simp_all
  show ?case
  proof (cases "t \<in> set fs")
    case True
    then show ?thesis using Cons.IH[OF d, of fs] by simp
  next
    case False
    have "filter (\<lambda>f. f \<notin> set (fs @ [t])) ts = filter (\<lambda>f. f \<notin> set fs) ts"
      using t by (intro filter_cong) auto
    then show ?thesis using False Cons.IH[OF d, of "fs @ [t]"] by simp
  qed
qed

lemma add_target_fields_eq:
  "add_target_fields fieldnames = fieldnames @ filter (\<lambda>f. f \<notin> set fieldnames) target_fields"
  unfolding add_target_fields_def by (rule foldl_append_missing[OF distinct_target_fields])

lemma columns_kept: "set fieldnames \<subseteq> set (add_target_fields fieldnames)"
  by (simp add: add_target_fields_eq)

lemma target_fields_added: "set target_fields \<subseteq> set (add_target_fields fieldnames)"
  by (auto simp: add_target_fields_eq)

lemma strip_examples:
  "strip (u ''1-55'') = u ''1-55''" "strip (u ''123'') = u ''123''" "strip (u '' '') = []"
  "list_all isspace (u ''  '')"
  by (simp_all add: strip_def isspace_def u_simps)

lemma dead_lookup:
  "get_latest_vri lib dead_world s [] mi =
     ((PNone, full_url lib mi (u ''2026-01-15'')),
      [Get (vri_request s mi (u ''2026-01-15'') [(u ''X-Requested-With'', u ''XMLHttpRequest'')])])"
proof -
  have t: "today dead_world [] = u ''2026-01-15''"
    by (simp add: dead_world_def)
  have h: "http dead_world [] (vri_request s mi (today dead_world [])
             [(u ''X-Requested-With'', u ''XMLHttpRequest'')]) = Raises"
    by (simp add: dead_world_def)
  have "fst (fst (get_latest_vri lib dead_world s [] mi)) = PNone"
    using fetch_raises[OF h] by (simp add: get_latest_vri_item lookup_response_def)
  moreover have "snd (get_latest_vri lib dead_world s [] mi) =
      [Get (vri_request s mi (u ''2026-01-15'') [(u ''X-Requested-With'', u ''XMLHttpRequest'')])]"
    using fetch_raises[OF h] t by (simp add: get_latest_vri_trace)
  ultimately show ?thesis
    using get_latest_vri_url[of lib dead_world s "[]" mi] t by (simp add: prod_eq_iff)
qed

lemma strip_all_space: "list_all isspace d \<Longrightarrow> strip d = []"
proof -
  assume "list_all isspace d"
  then have "dropWhile isspace d = []"
    by (induction d) simp_all
  then show ?thesis
    unfolding strip_def by (simp only: rev.simps dropWhile.simps)
qed

lemma strip_empty: "strip [] = []"
  by (simp add: strip_def)

lemma writerow_columns:
  "set (map fst r) \<subseteq> set fieldnames \<Longrightarrow> writerow fieldnames r = Inr (dict_to_list fieldnames r)"
  by (auto simp: writerow_def list_all_iff)

lemma get_latest_vri_parts:
  "get_latest_vri lib wd s tr mi =
     ((fst (fst (get_latest_vri lib wd s tr mi)), full_url lib mi (today wd tr)),
      snd (get_latest_vri lib wd s tr mi))"
  using get_latest_vri_url[of lib wd s tr mi] by (simp add: prod_eq_iff)

lemma process_row_already_filled:
  assumes "dget r device_column (PStr []) = PStr d"
    and "dget r (u ''vri_id'') (PStr []) = PStr v"
    and "strip v \<noteq> []"
    and "set (map fst r) \<subseteq> set fieldnames"
  shows "process_row lib wd s fieldnames st r =
           Inr \<lparr>stats = (stats st)\<lparr>already_filled := already_filled (stats st) + 1\<rparr>,
                out_lines = out_lines st @ [dict_to_list fieldnames r],
                trace = trace st\<rparr>"
  using assms
  by (simp add: process_row_def str_strip_def writerow_columns count_written_def)

lemma process_row_skipped:
  assumes "dget r device_column (PStr []) = PStr d"
    and "strip d = []"
    and "dget r (u ''vri_id'') (PStr []) = PStr v"
    and "strip v = []"
    and "set (map fst r) \<subseteq> set fieldnames"
  shows "process_row lib wd s fieldnames st r =
           Inr \<lparr>stats = (stats st)\<lparr>skipped := skipped (stats st) + 1\<rparr>,
                out_lines = out_lines st @ [dict_to_list fieldnames r],
                trace = trace st\<rparr>"
  using assms
  by (simp add: process_row_def str_strip_def writerow_columns count_written_def)

lemma process_row_lookup:
  assumes "dget r device_column (PStr []) = PStr d"
    and "strip d \<noteq> []"
    and "dget r (u ''vri_id'') (PStr []) = PStr v"
    and "strip v = []"
  shows "process_row lib wd s fieldnames st r =
           (if \<not> truthy (fst (fst (get_latest_vri lib wd s (trace st) (strip d)))) then
              (case writerow fieldnames r of
                 Inl e \<Rightarrow> Inl e
               | Inr line \<Rightarrow>
                   Inr \<lparr>stats = (stats st)\<lparr>not_found := not_found (stats st) + 1\<rparr>,
                        out_lines = out_lines st @ [line],
                        trace = snd (get_latest_vri lib wd s (trace st) (strip d)) @ [Sleep 1]\<rparr>)
            else
              (case enrich lib (strip d) (fst (fst (get_latest_vri lib wd s (trace st) (strip d)))) r of
                 Inl e \<Rightarrow> Inl e
               | Inr r' \<Rightarrow>
                  (case writerow fieldnames r' of
                     Inl e \<Rightarrow> Inl e
                   | Inr line \<Rightarrow>
                       Inr \<lparr>stats = (stats st)\<lparr>found := found (stats st) + 1\<rparr>,
                            out_lines = out_lines st @ [line],
                            trace = snd (get_latest_vri lib wd s (trace st) (strip d)) @ [Sleep 1]\<rparr>)))"
  using assms
  by (simp add: process_row_def str_strip_def count_written_def DELAY_BETWEEN_REQUESTS_def
        split: prod.splits sum.splits)

lemma process_row_not_found:
  assumes "dget r device_column (PStr []) = PStr d"
    and "strip d \<noteq> []"
    and "dget r (u ''vri_id'') (PStr []) = PStr v"
    and "strip v = []"
    and "set (map fst r) \<subseteq> set fieldnames"
    and "\<not> truthy (fst (fst (get_latest_vri lib wd s (trace st) (strip d))))"
  shows "process_row lib wd s fieldnames st r =
           Inr \<lparr>stats = (stats st)\<lparr>not_found := not_found (stats st) + 1\<rparr>,
                out_lines = out_lines st @ [dict_to_list fieldnames r],
                trace = snd (get_latest_vri lib wd s (trace st) (strip d)) @ [Sleep 1]\<rparr>"
  using assms(5,6) by (simp add: process_row_lookup[OF assms(1-4)] writerow_columns)

subsection \<open>The rows of the examples\<close>

lemma filled_row_facts:
  "dget filled_row device_column (PStr []) = PStr (u ''123'')"
  "dget filled_row (u ''vri_id'') (PStr []) = PStr (u ''1-55'')"
  "strip (u ''1-55'') \<noteq> []"
  "set (map fst filled_row) \<subseteq> set (add_target_fields demo_fieldnames)"
  using columns_kept[of demo_fieldnames]
  by (simp_all add: dget_def filled_row_def strip_examples demo_fieldnames_def)

lemma blank_id_row_facts:
  "dget blank_id_row device_column (PStr []) = PStr (u ''123'')"
  "strip (u ''123'') \<noteq> []"
  "dget blank_id_row (u ''vri_id'') (PStr []) = PStr (u '' '')"
  "strip (u '' '') = []"
  "set (map fst blank_id_row) \<subseteq> set (add_target_fields demo_fieldnames)"
  using columns_kept[of demo_fieldnames]
  by (simp_all add: dget_def blank_id_row_def strip_examples demo_fieldnames_def)

lemma no_number_row_facts:
  "dget no_number_row device_column (PStr []) = PStr (u ''  '')"
  "list_all isspace (u ''  '')"
  "dget no_number_row (u ''vri_id'') (PStr []) = PStr []"
  "strip [] = []"
  "set (map fst no_number_row) \<subseteq> set (add_target_fields demo_fieldnames)"
  using columns_kept[of demo_fieldnames]
  by (simp_all add: dget_def no_number_row_def strip_examples strip_empty demo_fieldnames_def)

lemma demo_row_facts:
  "dget demo_row device_column (PStr []) = PStr (u ''123'')"
  "strip (u ''123'') \<noteq> []"
  "dget demo_row (u ''vri_id'') (PStr []) = PStr []"
  "strip [] = []"
  "set (map fst demo_row) \<subseteq> set (add_target_fields demo_fieldnames)"
  using columns_kept[of demo_fieldnames]
  by (simp_all add: dget_def demo_row_def strip_examples strip_empty demo_fieldnames_def)

section \<open>The whole run\<close>

lemma process_row_step:
  assumes "process_row lib wd s fieldnames st r = Inr st'"
  shows "(stats st' = (stats st)\<lparr>already_filled := already_filled (stats st) + 1\<rparr>
          \<or> stats st' = (stats st)\<lparr>found := found (stats st) + 1\<rparr>
          \<or> stats st' = (stats st)\<lparr>not_found := not_found (stats st) + 1\<rparr>
          \<or> stats st' = (stats st)\<lparr>skipped := skipped (stats st) + 1\<rparr>)
         \<and> (\<exists>r'. out_lines st' = out_lines st @ [dict_to_list fieldnames r'])"
  using assms
  by (auto simp: process_row_def count_written_def writerow_def
      split: sum.splits if_splits prod.splits)

lemma process_row_sum:
  assumes "process_row lib wd s fieldnames st r = Inr st'"
  shows "already_filled (stats st') + found (stats st') + not_found (stats st') + skipped (stats st')
           = Suc (already_filled (stats st) + found (stats st) + not_found (stats st)
                  + skipped (stats st))
         \<and> total (stats st') = total (stats st)
         \<and> length (out_lines st') = Suc (length (out_lines st))"
  using process_row_step[OF assms] by auto

lemma run_rows_sum:
  "run_rows lib wd s fieldnames st rs = Inr st' \<Longrightarrow>
     already_filled (stats st') + found (stats st') + not_found (stats st') + skipped (stats st')
       = already_filled (stats st) + found (stats st) + not_found (stats st) + skipped (stats st)
         + length rs
     \<and> total (stats st') = total (stats st)
     \<and> length (out_lines st') = length (out_lines st) + length rs"
proof (induction rs arbitrary: st)
  case Nil
  then show ?case by simp
next
  case (Cons r rs)
  then obtain st1 where p: "process_row lib wd s fieldnames st r = Inr st1"
    and rest: "run_rows lib wd s fieldnames st1 rs = Inr st'"
    by (auto split: sum.splits)
  from process_row_sum[OF p] Cons.IH[OF rest] show ?case by simp
qed

lemma main_Ran:
  assumes "main lib wd (Some (fieldnames, rows)) = Ran header res"
  shows "rows \<noteq> [] \<and> header = add_target_fields fieldnames
         \<and> res = run_rows lib wd create_session (add_target_fields fieldnames)
                   (state0 (length rows)) rows"
  using assms by (auto simp: main_def Let_def state0_def split: if_splits)

lemma main_nonempty:
  "rows \<noteq> [] \<Longrightarrow>
     main lib wd (Some (fieldnames, rows)) =
       Ran (add_target_fields fieldnames)
         (run_rows lib wd create_session (add_target_fields fieldnames)
            (state0 (length rows)) rows)"
  by (simp add: main_def Let_def state0_def)

lemma first_item_body_of:
  "first_item (body_of items) = (case items of [] \<Rightarrow> Inr PNone | x # _ \<Rightarrow> Inr x)"
  by (simp add: body_of_def first_item_list dget_def)

lemma empty_lookup:
  "get_latest_vri lib empty_world s tr mi =
     ((PNone, full_url lib mi (u ''2026-01-15'')),
      tr @ [Get (vri_request s mi (u ''2026-01-15'') [(u ''X-Requested-With'', u ''XMLHttpRequest'')])])"
proof -
  have t: "today empty_world tr = u ''2026-01-15''"
    by (simp add: empty_world_def)
  have h: "http empty_world tr (vri_request s mi (today empty_world tr)
             [(u ''X-Requested-With'', u ''XMLHttpRequest'')]) = Response 200 (Some (body_of []))"
    by (simp add: empty_world_def)
  have f: "fetch empty_world s tr (API_BASE @ u ''/vri'') (vri_params mi (today empty_world tr)) =
      (Response 200 (Some (body_of [])),
       tr @ [Get (vri_request s mi (today empty_world tr)
                   [(u ''X-Requested-With'', u ''XMLHttpRequest'')])])"
    by (rule fetch_not_429[OF h]) simp
  have "fst (fst (get_latest_vri lib empty_world s tr mi)) = PNone"
    using f by (simp add: get_latest_vri_item lookup_response_def status_ok_def first_item_body_of)
  moreover have "snd (get_latest_vri lib empty_world s tr mi) =
      tr @ [Get (vri_request s mi (u ''2026-01-15'') [(u ''X-Requested-With'', u ''XMLHttpRequest'')])]"
    using f t by (simp add: get_latest_vri_trace)
  ultimately show ?thesis
    using get_latest_vri_url[of lib empty_world s tr mi] t by (simp add: prod_eq_iff)
qed

lemma three_rows_run:
  "run_rows ref_lib empty_world create_session (add_target_fields demo_fieldnames) (state0 3)
       [filled_row, demo_row, no_number_row] =
     Inr \<lparr>stats = \<lparr>total = 3, already_filled = 1, found = 0, not_found = 1, skipped = 1\<rparr>,
          out_lines = [dict_to_list (add_target_fields demo_fieldnames) filled_row,
                       dict_to_list (add_target_fields demo_fieldnames) demo_row,
                       dict_to_list (add_target_fields demo_fieldnames) no_number_row],
          trace = [Get (vri_request create_session (u ''123'') (u ''2026-01-15'')
                         [(u ''X-Requested-With'', u ''XMLHttpRequest'')]),
                   Sleep 1]\<rparr>"
proof -
  have 1: "process_row ref_lib empty_world create_session (add_target_fields demo_fieldnames)
             (state0 3) filled_row =
           Inr \<lparr>stats = \<lparr>total = 3, already_filled = 1, found = 0, not_found = 0, skipped = 0\<rparr>,
                out_lines = [dict_to_list (add_target_fields demo_fieldnames) filled_row],
                trace = []\<rparr>"
    by (simp add: process_row_already_filled[OF filled_row_facts] state0_def)
  have 2: "process_row ref_lib empty_world create_session (add_target_fields demo_fieldnames)
             \<lparr>stats = \<lparr>total = 3, already_filled = 1, found = 0, not_found = 0, skipped = 0\<rparr>,
              out_lines = [dict_to_list (add_target_fields demo_fieldnames) filled_row],
              trace = []\<rparr> demo_row =
           Inr \<lparr>stats = \<lparr>total = 3, already_filled = 1, found = 0, not_found = 1, skipped = 0\<rparr>,
                out_lines = [dict_to_list (add_target_fields demo_fieldnames) filled_row,
                             dict_to_list (add_target_fields demo_fieldnames) demo_row],
                trace = [Get (vri_request create_session (u ''123'') (u ''2026-01-15'')
                               [(u ''X-Requested-With'', u ''XMLHttpRequest'')]),
                         Sleep 1]\<rparr>"
    by (subst process_row_not_found[OF demo_row_facts])
       (simp_all add: empty_lookup strip_examples)
  have 3: "process_row ref_lib empty_world create_session (add_target_fields demo_fieldnames)
             \<lparr>stats = \<lparr>total = 3, already_filled = 1, found = 0, not_found = 1, skipped = 0\<rparr>,
              out_lines = [dict_to_list (add_target_fields demo_fieldnames) filled_row,
                           dict_to_list (add_target_fields demo_fieldnames) demo_row],
              trace = [Get (vri_request create_session (u ''123'') (u ''2026-01-15'')
                             [(u ''X-Requested-With'', u ''XMLHttpRequest'')]),
                       Sleep 1]\<rparr> no_number_row =
           Inr \<lparr>stats = \<lparr>total = 3, already_filled = 1, found = 0, not_found = 1, skipped = 1\<rparr>,
                out_lines = [dict_to_list (add_target_fields demo_fieldnames) filled_row,
                             dict_to_list (add_target_fields demo_fieldnames) demo_row,
                             dict_to_list (add_target_fields demo_fieldnames) no_number_row],
                trace = [Get (vri_request create_session (u ''123'') (u ''2026-01-15'')
                               [(u ''X-Requested-With'', u ''XMLHttpRequest'')]),
                         Sleep 1]\<rparr>"
    by (subst process_row_skipped[OF no_number_row_facts(1)
              strip_all_space[OF no_number_row_facts(2)] no_number_row_facts(3-5)])
       simp
  show ?thesis by (simp only: run_rows.simps 1 2 3 sum.case)
qed

lemma three_rows_main:
  "main ref_lib empty_world (Some (demo_fieldnames, [filled_row, demo_row, no_number_row])) =
     Ran (add_target_fields demo_fieldnames)
       (Inr \<lparr>stats = \<lparr>total = 3, already_filled = 1, found = 0, not_found = 1, skipped = 1\<rparr>,
             out_lines = [dict_to_list (add_target_fields demo_fieldnames) filled_row,
                          dict_to_list (add_target_fields demo_fieldnames) demo_row,
                          dict_to_list (add_target_fields demo_fieldnames) no_number_row],
             trace = [Get (vri_request create_session (u ''123'') (u ''2026-01-15'')
                            [(u ''X-Requested-With'', u ''XMLHttpRequest'')]),
                      Sleep 1]\<rparr>)"
proof -
  have n: "length [filled_row, demo_row, no_number_row] = 3" by simp
  have "main ref_lib empty_world (Some (demo_fieldnames, [filled_row, demo_row, no_number_row])) =
      Ran (add_target_fields demo_fieldnames)
        (run_rows ref_lib empty_world create_session (add_target_fields demo_fieldnames)
           (state0 (length [filled_row, demo_row, no_number_row]))
           [filled_row, demo_row, no_number_row])"
    by (rule main_nonempty) simp
  then show ?thesis by (simp only: n three_rows_run)
qed

lemma one_row_run:
  "main ref_lib dead_world (Some (demo_fieldnames, [filled_row])) =
     Ran (add_target_fields demo_fieldnames)
       (Inr \<lparr>stats = \<lparr>total = 1, already_filled = 1, found = 0, not_found = 0, skipped = 0\<rparr>,
             out_lines = [dict_to_list (add_target_fields demo_fieldnames) filled_row],
             trace = []\<rparr>)"
  by (simp add: main_nonempty process_row_already_filled[OF filled_row_facts] state0_def)

subsection \<open>The counters\<close>

text \<open>
  C2 (corrected). \<open>total\<close> is the number of input rows from the start. After a run
  that reaches the end of the table, the four outcome counters \<open>already_filled\<close>,
  \<open>found\<close>, \<open>not_found\<close> and \<open>skipped\<close> add up to the number of input rows, which
  \<open>total\<close> still holds; every pass of the loop that returns adds one to exactly one
  of the four and leaves the others and \<open>total\<close> as they were.
\<close>

theorem outcome_counters_sum:
  "(main lib wd (Some (fieldnames, rows)) = Ran header (Inr st) \<longrightarrow>
      already_filled (stats st) + found (stats st) + not_found (stats st) + skipped (stats st)
        = length rows
      \<and> total (stats st) = length rows)
   \<and> (process_row lib wd s fns st0 r = Inr st1 \<longrightarrow>
        stats st1 = (stats st0)\<lparr>already_filled := already_filled (stats st0) + 1\<rparr>
        \<or> stats st1 = (stats st0)\<lparr>found := found (stats st0) + 1\<rparr>
        \<or> stats st1 = (stats st0)\<lparr>not_found := not_found (stats st0) + 1\<rparr>
        \<or> stats st1 = (stats st0)\<lparr>skipped := skipped (stats st0) + 1\<rparr>)"
proof (intro conjI impI)
  assume m: "main lib wd (Some (fieldnames, rows)) = Ran header (Inr st)"
  from main_Ran[OF m]
  have r: "run_rows lib wd create_session (add_target_fields fieldnames)
             (state0 (length rows)) rows = Inr st"
    by simp
  from run_rows_sum[OF r]
  show "already_filled (stats st) + found (stats st) + not_found (stats st) + skipped (stats st)
          = length rows"
    and "total (stats st) = length rows"
    by (simp_all add: state0_def)
next
  assume "process_row lib wd s fns st0 r = Inr st1"
  from process_row_step[OF this]
  show "stats st1 = (stats st0)\<lparr>already_filled := already_filled (stats st0) + 1\<rparr>
        \<or> stats st1 = (stats st0)\<lparr>found := found (stats st0) + 1\<rparr>
        \<or> stats st1 = (stats st0)\<lparr>not_found := not_found (stats st0) + 1\<rparr>
        \<or> stats st1 = (stats st0)\<lparr>skipped := skipped (stats st0) + 1\<rparr>"
    by simp
qed

theorem outcome_counters_sum_witness:
  "main ref_lib empty_world (Some (demo_fieldnames, [filled_row, demo_row, no_number_row])) =
     Ran (add_target_fields demo_fieldnames)
       (Inr \<lparr>stats = \<lparr>total = 3, already_filled = 1, found = 0, not_found = 1, skipped = 1\<rparr>,
             out_lines = [dict_to_list (add_target_fields demo_fieldnames) filled_row,
                          dict_to_list (add_target_fields demo_fieldnames) demo_row,
                          dict_to_list (add_target_fields demo_fieldnames) no_number_row],
             trace = [Get (vri_request create_session (u ''123'') (u ''2026-01-15'')
                            [(u ''X-Requested-With'', u ''XMLHttpRequest'')]),
                      Sleep 1]\<rparr>)
   \<and> (1::nat) + 0 + 1 + 1 = length [filled_row, demo_row, no_number_row]
   \<and> process_row ref_lib empty_world create_session (add_target_fields demo_fieldnames)
         (state0 3) filled_row =
       Inr \<lparr>stats = (stats (state0 3))\<lparr>already_filled := already_filled (stats (state0 3)) + 1\<rparr>,
            out_lines = [dict_to_list (add_target_fields demo_fieldnames) filled_row],
            trace = []\<rparr>"
proof -
  have m: "main ref_lib empty_world (Some (demo_fieldnames, [filled_row, demo_row, no_number_row])) =
     Ran (add_target_fields demo_fieldnames)
       (Inr \<lparr>stats = \<lparr>total = 3, already_filled = 1, found = 0, not_found = 1, skipped = 1\<rparr>,
             out_lines = [dict_to_list (add_target_fields demo_fieldnames) filled_row,
                          dict_to_list (add_target_fields demo_fieldnames) demo_row,
                          dict_to_list (add_target_fields demo_fieldnames) no_number_row],
             trace = [Get (vri_request create_session (u ''123'') (u ''2026-01-15'')
                            [(u ''X-Requested-With'', u ''XMLHttpRequest'')]),
                      Sleep 1]\<rparr>)"
    by (rule three_rows_main)
  have p: "process_row ref_lib empty_world create_session (add_target_fields demo_fieldnames)
         (state0 3) filled_row =
       Inr \<lparr>stats = (stats (state0 3))\<lparr>already_filled := already_filled (stats (state0 3)) + 1\<rparr>,
            out_lines = [dict_to_list (add_target_fields demo_fieldnames) filled_row],
            trace = []\<rparr>"
    by (simp add: process_row_already_filled[OF filled_row_facts] state0_def)
  show ?thesis
    using outcome_counters_sum[of ref_lib empty_world demo_fieldnames
            "[filled_row, demo_row, no_number_row]" "add_target_fields demo_fieldnames" _
            create_session "add_target_fields demo_fieldnames" "state0 3" filled_row] m p
    by simp
qed

text \<open>
  The claim as stated fails on a table of one row that is already filled: the five
  counters, \<open>total\<close> among them, add up to two.
\<close>

theorem five_counters_counterexample:
  "main ref_lib dead_world (Some (demo_fieldnames, [filled_row])) =
     Ran (add_target_fields demo_fieldnames)
       (Inr \<lparr>stats = \<lparr>total = 1, already_filled = 1, found = 0, not_found = 0, skipped = 0\<rparr>,
             out_lines = [dict_to_list (add_target_fields demo_fieldnames) filled_row],
             trace = []\<rparr>)
   \<and> total \<lparr>total = 1, already_filled = 1, found = 0, not_found = 0, skipped = 0\<rparr>
       + already_filled \<lparr>total = 1, already_filled = 1, found = 0, not_found = 0, skipped = 0\<rparr>
       + found \<lparr>total = 1, already_filled = 1, found = 0, not_found = 0, skipped = 0\<rparr>
       + not_found \<lparr>total = 1, already_filled = 1, found = 0, not_found = 0, skipped = 0\<rparr>
       + skipped \<lparr>total = 1, already_filled = 1, found = 0, not_found = 0, skipped = 0\<rparr>
       = 2
   \<and> length [filled_row] = 1"
  using one_row_run by simp

section \<open>The found branch\<close>












lemma keys_update: "fst ` set (AList.update k v r) = insert k (fst ` set r)"
  using dom_update[of k v r] by auto

lemma enrich_keys_case:
  "(case enrich lib mi vri r of
      Inl e \<Rightarrow> True
    | Inr r' \<Rightarrow> fst ` set r' \<subseteq> fst ` set r \<union> set target_fields)"
proof -
  have t: "u ''org_title'' \<in> set target_fields" "u ''mit_number'' \<in> set target_fields"
    "u ''mit_title'' \<in> set target_fields" "u ''mit_notation'' \<in> set target_fields"
    "u ''mi_modification'' \<in> set target_fields" "u ''mi_number'' \<in> set target_fields"
    "u ''verification_date'' \<in> set target_fields" "u ''valid_date'' \<in> set target_fields"
    "u ''result_docnum'' \<in> set target_fields" "u ''sticker_num'' \<in> set target_fields"
    "u ''applicability'' \<in> set target_fields" "u ''vri_id'' \<in> set target_fields"
    by (simp_all add: target_fields_def)
  show ?thesis
    by (cases vri) (simp_all add: enrich_def Let_def keys_update t split: sum.splits)
qed

lemma enrich_keys:
  assumes "enrich lib mi vri r = Inr r'"
  shows "set (map fst r') \<subseteq> set (map fst r) \<union> set target_fields"
  using enrich_keys_case[where lib=lib and mi=mi and vri=vri and r=r] assms by simp

lemma process_row_found:
  assumes "dget r device_column (PStr []) = PStr d"
    and "strip d \<noteq> []"
    and "dget r (u ''vri_id'') (PStr []) = PStr v"
    and "strip v = []"
    and "set (map fst r) \<subseteq> set (add_target_fields fieldnames)"
    and "truthy (fst (fst (get_latest_vri lib wd s (trace st) (strip d))))"
    and "enrich lib (strip d) (fst (fst (get_latest_vri lib wd s (trace st) (strip d)))) r = Inr r'"
  shows "process_row lib wd s (add_target_fields fieldnames) st r =
           Inr \<lparr>stats = (stats st)\<lparr>found := found (stats st) + 1\<rparr>,
                out_lines = out_lines st @ [dict_to_list (add_target_fields fieldnames) r'],
                trace = snd (get_latest_vri lib wd s (trace st) (strip d)) @ [Sleep 1]\<rparr>"
proof -
  have "set (map fst r') \<subseteq> set (add_target_fields fieldnames)"
    using enrich_keys[OF assms(7)] assms(5) target_fields_added[of fieldnames] by blast
  then show ?thesis
    using assms(6,7) by (simp add: process_row_lookup[OF assms(1-4)] writerow_columns)
qed

subsection \<open>Runs that reach the end\<close>

lemma is_str_iff: "is_str x \<longleftrightarrow> (\<exists>s. x = PStr s)"
  by (cases x) (simp_all add: is_str_def)

lemma format_date_any_date_like:
  "date_like x \<Longrightarrow> \<exists>t. format_date_any lib x = Inr t"
  by (cases x) (auto simp: date_like_def is_str_def format_date_any_def split: if_splits)

lemma enrich_well_typed:
  assumes "truthy x" and "well_typed_item x"
  shows "\<exists>r'. enrich lib mi x r = Inr r'"
proof -
  from assms obtain kv where x: "x = PDict kv"
    and vd: "date_like (dget kv (u ''verification_date'') (PStr []))"
    and vl: "date_like (dget kv (u ''valid_date'') (PStr []))"
    and doc: "truthy (dget kv (u ''vri_id'') (PStr []))
              \<or> is_str (dget kv (u ''result_docnum'') (PStr []))"
    by (cases x) (auto simp: well_typed_item_def split: if_splits)
  from format_date_any_date_like[OF vd] obtain t1
    where t1: "format_date_any lib (dget kv (u ''verification_date'') (PStr [])) = Inr t1"
    by blast
  from format_date_any_date_like[OF vl] obtain t2
    where t2: "format_date_any lib (dget kv (u ''valid_date'') (PStr [])) = Inr t2"
    by blast
  show ?thesis
  proof (cases "truthy (dget kv (u ''vri_id'') (PStr []))")
    case True
    then show ?thesis using x t1 t2 by (simp add: enrich_def Let_def)
  next
    case False
    with doc obtain d where "dget kv (u ''result_docnum'') (PStr []) = PStr d"
      by (auto simp: is_str_iff)
    then show ?thesis
      using x t1 t2 False
      by (simp add: enrich_def Let_def contains_char_def str_split_def)
  qed
qed

lemma process_row_completes:
  assumes "well_formed_row (add_target_fields fieldnames) r"
    and "\<And>tr mi. well_typed_item (fst (fst (get_latest_vri lib wd s tr mi)))"
  shows "\<exists>st'. process_row lib wd s (add_target_fields fieldnames) st r = Inr st'"
proof -
  from assms(1) obtain d v where d: "dget r device_column (PStr []) = PStr d"
    and v: "dget r (u ''vri_id'') (PStr []) = PStr v"
    and keys: "set (map fst r) \<subseteq> set (add_target_fields fieldnames)"
    by (auto simp: well_formed_row_def is_str_iff list_all_iff)
  show ?thesis
  proof (cases "strip v = []")
    case False
    then show ?thesis using process_row_already_filled[OF d v _ keys] by blast
  next
    case True
    show ?thesis
    proof (cases "strip d = []")
      case True
      then show ?thesis using process_row_skipped[OF d _ v \<open>strip v = []\<close> keys] by blast
    next
      case False
      let ?x = "fst (fst (get_latest_vri lib wd s (trace st) (strip d)))"
      show ?thesis
      proof (cases "truthy ?x")
        case False
        then show ?thesis
          using process_row_not_found[OF d \<open>strip d \<noteq> []\<close> v True keys] by blast
      next
        case True
        from enrich_well_typed[OF True assms(2)] obtain r'
          where "enrich lib (strip d) ?x r = Inr r'" by blast
        from process_row_found[OF d \<open>strip d \<noteq> []\<close> v \<open>strip v = []\<close> keys True this]
        show ?thesis by blast
      qed
    qed
  qed
qed

lemma run_rows_completes:
  assumes "list_all (well_formed_row (add_target_fields fieldnames)) rs"
    and "\<And>tr mi. well_typed_item (fst (fst (get_latest_vri lib wd s tr mi)))"
  shows "\<exists>st'. run_rows lib wd s (add_target_fields fieldnames) st rs = Inr st'"
  using assms(1)
proof (induction rs arbitrary: st)
  case Nil
  then show ?case by simp
next
  case (Cons r rs)
  then have r: "well_formed_row (add_target_fields fieldnames) r"
    and rs: "list_all (well_formed_row (add_target_fields fieldnames)) rs"
    by simp_all
  from process_row_completes[OF r assms(2)] obtain st1
    where "process_row lib wd s (add_target_fields fieldnames) st r = Inr st1" by blast
  with Cons.IH[OF rs, of st1] show ?case by simp
qed

lemma main_completes:
  assumes "rows \<noteq> []"
    and "list_all (well_formed_row (add_target_fields fieldnames)) rows"
    and "\<And>tr mi. well_typed_item (fst (fst (get_latest_vri lib wd create_session tr mi)))"
  shows "\<exists>st. main lib wd (Some (fieldnames, rows)) = Ran (add_target_fields fieldnames) (Inr st)"
  using run_rows_completes[OF assms(2,3)] assms(1) by (simp add: main_nonempty)

section \<open>The cells of a written row\<close>

lemma dict_to_list_cells:
  "dict_to_list header r = map (\<lambda>k. case map_of r k of None \<Rightarrow> PStr [] | Some c \<Rightarrow> c) header"
  by (simp add: dict_to_list_def dget_def)

lemma map_const_replicate: "(\<And>x. x \<in> set xs \<Longrightarrow> f x = c) \<Longrightarrow> map f xs = replicate (length xs) c"
  by (induction xs) simp_all

lemma header_cells:
  assumes "set (map fst r) \<subseteq> set fieldnames"
  shows "dict_to_list (add_target_fields fieldnames) r =
           map (\<lambda>k. case map_of r k of None \<Rightarrow> PStr [] | Some c \<Rightarrow> c) fieldnames
           @ replicate (length (add_target_fields fieldnames) - length fieldnames) (PStr [])"
proof -
  let ?new = "filter (\<lambda>f. f \<notin> set fieldnames) target_fields"
  have none: "(case map_of r f of None \<Rightarrow> PStr [] | Some c \<Rightarrow> c) = PStr []" if "f \<in> set ?new" for f
  proof -
    from that have "f \<notin> set (map fst r)" using assms by auto
    then have "map_of r f = None" by (simp add: map_of_eq_None_iff)
    then show ?thesis by simp
  qed
  have "map (\<lambda>k. case map_of r k of None \<Rightarrow> PStr [] | Some c \<Rightarrow> c) ?new
          = replicate (length ?new) (PStr [])"
    by (rule map_const_replicate) (rule none)
  then show ?thesis
    by (simp add: dict_to_list_cells add_target_fields_eq)
qed

lemma writerow_Inr: "writerow fieldnames r = Inr line \<Longrightarrow> line = dict_to_list fieldnames r"
  by (auto simp: writerow_def split: if_splits)

lemma process_row_written:
  assumes "process_row lib wd s fieldnames st r = Inr st'"
  shows "\<exists>r'. (r' = r \<or> (\<exists>mi vri. enrich lib mi vri r = Inr r'))
           \<and> out_lines st' = out_lines st @ [dict_to_list fieldnames r']"
proof -
  from assms obtain d where d: "str_strip (dget r device_column (PStr [])) = Inr d"
    by (cases "str_strip (dget r device_column (PStr []))") (simp_all add: process_row_def)
  from assms d obtain v where v: "str_strip (dget r (u ''vri_id'') (PStr [])) = Inr v"
    by (cases "str_strip (dget r (u ''vri_id'') (PStr []))") (simp_all add: process_row_def)
  obtain vri url tr where g: "get_latest_vri lib wd s (trace st) d = ((vri, url), tr)"
    by (metis prod.exhaust)
  show ?thesis
  proof (cases "v \<noteq> [] \<or> d = [] \<or> \<not> truthy vri")
    case True
    with assms d v g obtain sts line tr' where w: "writerow fieldnames r = Inr line"
      and s: "st' = count_written st sts line tr'"
      by (cases "writerow fieldnames r") (auto simp: process_row_def split: if_splits)
    from writerow_Inr[OF w] s have "out_lines st' = out_lines st @ [dict_to_list fieldnames r]"
      by (simp add: count_written_def)
    then show ?thesis by blast
  next
    case False
    with assms d v g obtain r1 where e: "enrich lib d vri r = Inr r1"
      by (cases "enrich lib d vri r") (simp_all add: process_row_def)
    with False assms d v g obtain sts line tr' where w: "writerow fieldnames r1 = Inr line"
      and s: "st' = count_written st sts line tr'"
      by (cases "writerow fieldnames r1") (auto simp: process_row_def)
    from writerow_Inr[OF w] s have "out_lines st' = out_lines st @ [dict_to_list fieldnames r1]"
      by (simp add: count_written_def)
    with e show ?thesis by blast
  qed
qed

lemma run_rows_written:
  "run_rows lib wd s fieldnames st rs = Inr st' \<Longrightarrow>
     \<exists>ws. list_all2 (\<lambda>r r'. r' = r \<or> (\<exists>mi vri. enrich lib mi vri r = Inr r')) rs ws
          \<and> out_lines st' = out_lines st @ map (dict_to_list fieldnames) ws"
proof (induction rs arbitrary: st)
  case Nil
  then show ?case by simp
next
  case (Cons r rs)
  then obtain st1 where p: "process_row lib wd s fieldnames st r = Inr st1"
    and rest: "run_rows lib wd s fieldnames st1 rs = Inr st'"
    by (auto split: sum.splits)
  from process_row_written[OF p] obtain r'
    where r': "r' = r \<or> (\<exists>mi vri. enrich lib mi vri r = Inr r')"
      and o1: "out_lines st1 = out_lines st @ [dict_to_list fieldnames r']"
    by blast
  from Cons.IH[OF rest] obtain ws
    where ws: "list_all2 (\<lambda>r r'. r' = r \<or> (\<exists>mi vri. enrich lib mi vri r = Inr r')) rs ws"
      and o2: "out_lines st' = out_lines st1 @ map (dict_to_list fieldnames) ws"
    by blast
  have "list_all2 (\<lambda>r r'. r' = r \<or> (\<exists>mi vri. enrich lib mi vri r = Inr r')) (r # rs) (r' # ws)"
    using r' ws by simp
  moreover have "out_lines st' = out_lines st @ map (dict_to_list fieldnames) (r' # ws)"
    using o1 o2 by simp
  ultimately show ?case by blast
qed

lemma demo_header:
  "add_target_fields demo_fieldnames =
     [device_column, u ''vri_id'', u ''arshin'', u ''org_title'', u ''mit_number'',
      u ''mit_title'', u ''mit_notation'', u ''mi_modification'', u ''mi_number'',
      u ''verification_date'', u ''valid_date'', u ''result_docnum'', u ''sticker_num'',
      u ''applicability'']"
  by (simp add: add_target_fields_eq demo_fieldnames_def target_fields_def)

lemma dget_Cons: "dget ((k, v) # r) k' dflt = (if k' = k then v else dget r k' dflt)"
  by (simp add: dget_def)

lemma dget_Nil: "dget [] k dflt = dflt"
  by (simp add: dget_def)

lemma demo_lines:
  "dict_to_list (add_target_fields demo_fieldnames) filled_row =
     [PStr (u ''123''), PStr (u ''1-55''), PStr (u ''77''), PStr [], PStr [], PStr [], PStr [],
      PStr [], PStr [], PStr [], PStr [], PStr [], PStr [], PStr []]"
  "dict_to_list (add_target_fields demo_fieldnames) demo_row =
     [PStr (u ''123''), PStr [], PStr (u ''77''), PStr [], PStr [], PStr [], PStr [],
      PStr [], PStr [], PStr [], PStr [], PStr [], PStr [], PStr []]"
  "dict_to_list (add_target_fields demo_fieldnames) no_number_row =
     [PStr (u ''  ''), PStr [], PStr (u ''77''), PStr [], PStr [], PStr [], PStr [],
      PStr [], PStr [], PStr [], PStr [], PStr [], PStr [], PStr []]"
  "dict_to_list (add_target_fields demo_fieldnames) blank_id_row =
     [PStr (u ''123''), PStr (u '' ''), PStr (u ''77''), PStr [], PStr [], PStr [], PStr [],
      PStr [], PStr [], PStr [], PStr [], PStr [], PStr [], PStr []]"
  by (simp_all add: demo_header dict_to_list_def dget_Cons dget_Nil filled_row_def demo_row_def
      no_number_row_def blank_id_row_def)

lemma restkey_neq [simp]: "restkey \<noteq> u s" "restkey \<noteq> device_column"
proof -
  have "1114112 \<in> set restkey" by (simp add: restkey_def)
  then show "restkey \<noteq> u s" using u_ascii[of 1114112 s] by auto
  show "restkey \<noteq> device_column" by (simp add: restkey_def device_column_def)
qed

lemma restkey_no_column: "restkey \<notin> set (add_target_fields demo_fieldnames)"
  by (simp add: demo_header)

lemma example_keys:
  "set (map fst filled_row) \<subseteq> set demo_fieldnames"
  "set (map fst no_number_row) \<subseteq> set demo_fieldnames"
  by (simp_all add: filled_row_def no_number_row_def demo_fieldnames_def)

lemma example_cells:
  "map (\<lambda>k. case map_of filled_row k of None \<Rightarrow> PStr [] | Some c \<Rightarrow> c) demo_fieldnames
     @ replicate (length (add_target_fields demo_fieldnames) - length demo_fieldnames) (PStr [])
   = [PStr (u ''123''), PStr (u ''1-55''), PStr (u ''77''), PStr [], PStr [], PStr [], PStr [],
      PStr [], PStr [], PStr [], PStr [], PStr [], PStr [], PStr []]"
  "map (\<lambda>k. case map_of no_number_row k of None \<Rightarrow> PStr [] | Some c \<Rightarrow> c) demo_fieldnames
     @ replicate (length (add_target_fields demo_fieldnames) - length demo_fieldnames) (PStr [])
   = [PStr (u ''  ''), PStr [], PStr (u ''77''), PStr [], PStr [], PStr [], PStr [],
      PStr [], PStr [], PStr [], PStr [], PStr [], PStr [], PStr []]"
  using header_cells[OF example_keys(1)] header_cells[OF example_keys(2)] demo_lines(1,3)
  by simp_all

subsection \<open>Rows that are passed through\<close>

text \<open>
  C5 (corrected). Take a row with no key beside the columns of the input, which is a
  row read from a line that is not longer than the header, whose cell of the device
  number is a string (or which has no such column) and whose \<open>vri_id\<close> cell is a string
  that is not empty once the white space around it is stripped. The pass of the loop
  sends no request, adds one to \<open>already_filled\<close> and to no other counter, and writes
  one line: under each column of the input the cell that the row came with, and an
  empty cell under each column that \<open>main\<close> appended to the header.
\<close>

theorem already_filled_passes_through:
  assumes "dget r device_column (PStr []) = PStr d"
    and "dget r (u ''vri_id'') (PStr []) = PStr v"
    and "strip v \<noteq> []"
    and "set (map fst r) \<subseteq> set fieldnames"
  shows "process_row lib wd s (add_target_fields fieldnames) st r =
           Inr \<lparr>stats = (stats st)\<lparr>already_filled := already_filled (stats st) + 1\<rparr>,
                out_lines = out_lines st @
                  [map (\<lambda>k. case map_of r k of None \<Rightarrow> PStr [] | Some c \<Rightarrow> c) fieldnames
                   @ replicate (length (add_target_fields fieldnames) - length fieldnames)
                       (PStr [])],
                trace = trace st\<rparr>"
proof -
  have "set (map fst r) \<subseteq> set (add_target_fields fieldnames)"
    using assms(4) columns_kept[of fieldnames] by blast
  from process_row_already_filled[OF assms(1-3) this] show ?thesis
    by (simp only: header_cells[OF assms(4)])
qed

theorem already_filled_passes_through_witness:
  "dget filled_row device_column (PStr []) = PStr (u ''123'')
   \<and> dget filled_row (u ''vri_id'') (PStr []) = PStr (u ''1-55'')
   \<and> strip (u ''1-55'') \<noteq> []
   \<and> set (map fst filled_row) \<subseteq> set demo_fieldnames
   \<and> process_row ref_lib calm_world create_session (add_target_fields demo_fieldnames)
         (state0 1) filled_row =
       Inr \<lparr>stats = \<lparr>total = 1, already_filled = 1, found = 0, not_found = 0, skipped = 0\<rparr>,
            out_lines = [[PStr (u ''123''), PStr (u ''1-55''), PStr (u ''77''), PStr [], PStr [],
                          PStr [], PStr [], PStr [], PStr [], PStr [], PStr [], PStr [], PStr [],
                          PStr []]],
            trace = []\<rparr>"
  using already_filled_passes_through[OF filled_row_facts(1-3) example_keys(1),
          of ref_lib calm_world create_session "state0 1"]
        filled_row_facts(1-3) example_keys(1) example_cells(1)
  by (simp add: state0_def)

text \<open>
  The claim as stated fails in four ways. A \<open>vri_id\<close> cell that holds one blank is
  not empty, and the row is looked up and counted as not found. A line that ends
  before its device number leaves \<open>None\<close> in that cell and the pass raises
  \<open>AttributeError\<close>; a line with a cell too many raises \<open>ValueError\<close> when it is
  written. And the line written for a row of three cells has fourteen.
\<close>

theorem passes_through_counterexample:
  "dget blank_id_row (u ''vri_id'') (PStr []) = PStr (u '' '')
   \<and> u '' '' \<noteq> []
   \<and> process_row ref_lib dead_world create_session (add_target_fields demo_fieldnames)
         (state0 1) blank_id_row =
       Inr \<lparr>stats = \<lparr>total = 1, already_filled = 0, found = 0, not_found = 1, skipped = 0\<rparr>,
            out_lines = [[PStr (u ''123''), PStr (u '' ''), PStr (u ''77''), PStr [], PStr [],
                          PStr [], PStr [], PStr [], PStr [], PStr [], PStr [], PStr [], PStr [],
                          PStr []]],
            trace = [Get (vri_request create_session (u ''123'') (u ''2026-01-15'')
                           [(u ''X-Requested-With'', u ''XMLHttpRequest'')]),
                     Sleep 1]\<rparr>
   \<and> dget short_line_row (u ''vri_id'') (PStr []) = PStr (u ''1-55'')
   \<and> process_row ref_lib dead_world create_session (add_target_fields swapped_fieldnames)
         (state0 1) short_line_row = Inl AttributeError
   \<and> dget long_filled_row (u ''vri_id'') (PStr []) = PStr (u ''1-55'')
   \<and> process_row ref_lib dead_world create_session (add_target_fields demo_fieldnames)
         (state0 1) long_filled_row = Inl ValueError
   \<and> map snd filled_row = [PStr (u ''123''), PStr (u ''1-55''), PStr (u ''77'')]
   \<and> process_row ref_lib dead_world create_session (add_target_fields demo_fieldnames)
         (state0 1) filled_row =
       Inr \<lparr>stats = \<lparr>total = 1, already_filled = 1, found = 0, not_found = 0, skipped = 0\<rparr>,
            out_lines = [[PStr (u ''123''), PStr (u ''1-55''), PStr (u ''77''), PStr [], PStr [],
                          PStr [], PStr [], PStr [], PStr [], PStr [], PStr [], PStr [], PStr [],
                          PStr []]],
            trace = []\<rparr>"
proof -
  have n: "\<not> truthy (fst (fst (get_latest_vri ref_lib dead_world create_session
              (trace (state0 1)) (strip (u ''123'')))))"
    by (simp add: state0_def strip_examples dead_lookup)
  have 1: "process_row ref_lib dead_world create_session (add_target_fields demo_fieldnames)
         (state0 1) blank_id_row =
       Inr \<lparr>stats = \<lparr>total = 1, already_filled = 0, found = 0, not_found = 1, skipped = 0\<rparr>,
            out_lines = [[PStr (u ''123''), PStr (u '' ''), PStr (u ''77''), PStr [], PStr [],
                          PStr [], PStr [], PStr [], PStr [], PStr [], PStr [], PStr [], PStr [],
                          PStr []]],
            trace = [Get (vri_request create_session (u ''123'') (u ''2026-01-15'')
                           [(u ''X-Requested-With'', u ''XMLHttpRequest'')]),
                     Sleep 1]\<rparr>"
    using process_row_not_found[OF blank_id_row_facts n]
    by (simp add: state0_def strip_examples dead_lookup demo_lines)
  have 2: "process_row ref_lib dead_world create_session (add_target_fields swapped_fieldnames)
         (state0 1) short_line_row = Inl AttributeError"
    by (simp add: process_row_def str_strip_def dget_Cons short_line_row_def)
  have 3: "process_row ref_lib dead_world create_session (add_target_fields demo_fieldnames)
         (state0 1) long_filled_row = Inl ValueError"
    by (simp add: process_row_def str_strip_def dget_Cons long_filled_row_def strip_examples
        writerow_def restkey_no_column)
  have 4: "process_row ref_lib dead_world create_session (add_target_fields demo_fieldnames)
         (state0 1) filled_row =
       Inr \<lparr>stats = \<lparr>total = 1, already_filled = 1, found = 0, not_found = 0, skipped = 0\<rparr>,
            out_lines = [[PStr (u ''123''), PStr (u ''1-55''), PStr (u ''77''), PStr [], PStr [],
                          PStr [], PStr [], PStr [], PStr [], PStr [], PStr [], PStr [], PStr [],
                          PStr []]],
            trace = []\<rparr>"
    by (simp add: process_row_already_filled[OF filled_row_facts] state0_def demo_lines)
  have 5: "dget blank_id_row (u ''vri_id'') (PStr []) = PStr (u '' '')"
    "dget short_line_row (u ''vri_id'') (PStr []) = PStr (u ''1-55'')"
    "dget long_filled_row (u ''vri_id'') (PStr []) = PStr (u ''1-55'')"
    "map snd filled_row = [PStr (u ''123''), PStr (u ''1-55''), PStr (u ''77'')]"
    by (simp_all add: dget_Cons blank_id_row_def short_line_row_def long_filled_row_def
        filled_row_def)
  show ?thesis
    by (simp only: 1 2 3 4 5 simp_thms) simp
qed

text \<open>
  C6 (corrected). Take a row with no key beside the columns of the input, whose cell
  of the device number is a string that is empty or holds white space only (or which
  has no such column) and whose \<open>vri_id\<close> cell is a string that is empty once the
  white space around it is stripped. The pass of the loop sends no request, adds one
  to \<open>skipped\<close> and to no other counter, and writes one line: under each column of
  the input the cell that the row came with, and an empty cell under each column
  that \<open>main\<close> appended to the header.
\<close>

theorem blank_device_is_skipped:
  assumes "dget r device_column (PStr []) = PStr d"
    and "list_all isspace d"
    and "dget r (u ''vri_id'') (PStr []) = PStr v"
    and "strip v = []"
    and "set (map fst r) \<subseteq> set fieldnames"
  shows "process_row lib wd s (add_target_fields fieldnames) st r =
           Inr \<lparr>stats = (stats st)\<lparr>skipped := skipped (stats st) + 1\<rparr>,
                out_lines = out_lines st @
                  [map (\<lambda>k. case map_of r k of None \<Rightarrow> PStr [] | Some c \<Rightarrow> c) fieldnames
                   @ replicate (length (add_target_fields fieldnames) - length fieldnames)
                       (PStr [])],
                trace = trace st\<rparr>"
proof -
  have "set (map fst r) \<subseteq> set (add_target_fields fieldnames)"
    using assms(5) columns_kept[of fieldnames] by blast
  from process_row_skipped[OF assms(1) strip_all_space[OF assms(2)] assms(3,4) this]
  show ?thesis
    by (simp only: header_cells[OF assms(5)])
qed

theorem blank_device_is_skipped_witness:
  "dget no_number_row device_column (PStr []) = PStr (u ''  '')
   \<and> list_all isspace (u ''  '')
   \<and> dget no_number_row (u ''vri_id'') (PStr []) = PStr []
   \<and> strip [] = []
   \<and> set (map fst no_number_row) \<subseteq> set demo_fieldnames
   \<and> process_row ref_lib calm_world create_session (add_target_fields demo_fieldnames)
         (state0 1) no_number_row =
       Inr \<lparr>stats = \<lparr>total = 1, already_filled = 0, found = 0, not_found = 0, skipped = 1\<rparr>,
            out_lines = [[PStr (u ''  ''), PStr [], PStr (u ''77''), PStr [], PStr [], PStr [],
                          PStr [], PStr [], PStr [], PStr [], PStr [], PStr [], PStr [],
                          PStr []]],
            trace = []\<rparr>"
  using blank_device_is_skipped[OF no_number_row_facts(1-4) example_keys(2),
          of ref_lib calm_world create_session "state0 1"]
        no_number_row_facts(1-4) example_keys(2) example_cells(2)
  by (simp add: state0_def)

text \<open>
  The claim as stated fails on a line that is not as long as the header. With a cell
  too many, the row has a key that is no column and writing it raises \<open>ValueError\<close>;
  when the line ends after a blank device number, the \<open>vri_id\<close> cell is \<open>None\<close> and
  the pass raises \<open>AttributeError\<close>.
\<close>

theorem blank_device_counterexample:
  "dget long_line_row device_column (PStr []) = PStr (u ''  '')
   \<and> list_all isspace (u ''  '')
   \<and> dget long_line_row (u ''vri_id'') (PStr []) = PStr []
   \<and> process_row ref_lib calm_world create_session (add_target_fields demo_fieldnames)
         (state0 1) long_line_row = Inl ValueError
   \<and> dget cut_line_row device_column (PStr []) = PStr (u ''  '')
   \<and> dget cut_line_row (u ''vri_id'') (PStr []) = PNone
   \<and> process_row ref_lib calm_world create_session (add_target_fields demo_fieldnames)
         (state0 1) cut_line_row = Inl AttributeError"
proof -
  have s: "strip (u ''  '') = []"
    by (rule strip_all_space) (rule strip_examples)
  have 1: "process_row ref_lib calm_world create_session (add_target_fields demo_fieldnames)
         (state0 1) long_line_row = Inl ValueError"
    by (simp add: process_row_def str_strip_def dget_Cons long_line_row_def s strip_empty
        writerow_def restkey_no_column)
  have 2: "process_row ref_lib calm_world create_session (add_target_fields demo_fieldnames)
         (state0 1) cut_line_row = Inl AttributeError"
    by (simp add: process_row_def str_strip_def dget_Cons cut_line_row_def)
  have 3: "dget long_line_row device_column (PStr []) = PStr (u ''  '')"
    "dget long_line_row (u ''vri_id'') (PStr []) = PStr []"
    "dget cut_line_row device_column (PStr []) = PStr (u ''  '')"
    "dget cut_line_row (u ''vri_id'') (PStr []) = PNone"
    by (simp_all add: dget_Cons long_line_row_def cut_line_row_def)
  show ?thesis
    by (simp only: 1 2 3 strip_examples simp_thms)
qed

subsection \<open>The columns of the output\<close>

text \<open>
  C8. The columns of the output are the columns of the input, in their order,
  followed by those of the twelve enrichment fields that the input has not, in the
  order of the list. They depend on the columns of the input only. The header is
  this list, and so is the layout of every line written: each input row is written
  as it came or as the found branch filled it, and the line holds, column by column
  in the order of the header, the cell that this row has under the column, or an
  empty cell where it has none.
\<close>

theorem output_columns:
  "add_target_fields fieldnames = fieldnames @ filter (\<lambda>f. f \<notin> set fieldnames) target_fields
   \<and> length target_fields = 12
   \<and> distinct target_fields
   \<and> (rows \<noteq> [] \<longrightarrow>
        (\<exists>res. main lib wd (Some (fieldnames, rows)) = Ran (add_target_fields fieldnames) res))
   \<and> (main lib wd (Some (fieldnames, rows)) = Ran header (Inr st) \<longrightarrow>
        header = add_target_fields fieldnames
        \<and> length (out_lines st) = length rows
        \<and> (\<exists>written.
              list_all2 (\<lambda>r r'. r' = r \<or> (\<exists>mi vri. enrich lib mi vri r = Inr r')) rows written
              \<and> out_lines st =
                  map (\<lambda>r'. map (\<lambda>k. case map_of r' k of None \<Rightarrow> PStr [] | Some c \<Rightarrow> c) header)
                    written))"
proof (intro conjI impI)
  show "add_target_fields fieldnames = fieldnames @ filter (\<lambda>f. f \<notin> set fieldnames) target_fields"
    by (rule add_target_fields_eq)
  show "length target_fields = 12" by (rule length_target_fields)
  show "distinct target_fields" by (rule distinct_target_fields)
next
  assume "rows \<noteq> []"
  then show "\<exists>res. main lib wd (Some (fieldnames, rows)) = Ran (add_target_fields fieldnames) res"
    by (simp add: main_nonempty)
next
  assume m: "main lib wd (Some (fieldnames, rows)) = Ran header (Inr st)"
  from main_Ran[OF m] have h: "header = add_target_fields fieldnames"
    and r: "run_rows lib wd create_session header (state0 (length rows)) rows = Inr st"
    by simp_all
  show "header = add_target_fields fieldnames" by (rule h)
  from run_rows_sum[OF r] show "length (out_lines st) = length rows"
    by (simp add: state0_def)
  from run_rows_written[OF r] obtain ws
    where ws: "list_all2 (\<lambda>r r'. r' = r \<or> (\<exists>mi vri. enrich lib mi vri r = Inr r')) rows ws"
      and o: "out_lines st = out_lines (state0 (length rows)) @ map (dict_to_list header) ws"
    by blast
  have "map (dict_to_list header) ws =
      map (\<lambda>r'. map (\<lambda>k. case map_of r' k of None \<Rightarrow> PStr [] | Some c \<Rightarrow> c) header) ws"
    by (simp add: dict_to_list_cells)
  with o have "out_lines st =
      map (\<lambda>r'. map (\<lambda>k. case map_of r' k of None \<Rightarrow> PStr [] | Some c \<Rightarrow> c) header) ws"
    by (simp add: state0_def)
  with ws show "\<exists>written.
      list_all2 (\<lambda>r r'. r' = r \<or> (\<exists>mi vri. enrich lib mi vri r = Inr r')) rows written
      \<and> out_lines st =
          map (\<lambda>r'. map (\<lambda>k. case map_of r' k of None \<Rightarrow> PStr [] | Some c \<Rightarrow> c) header) written"
    by blast
qed

theorem output_columns_witness:
  "[filled_row, demo_row, no_number_row] \<noteq> []
   \<and> add_target_fields demo_fieldnames =
       [device_column, u ''vri_id'', u ''arshin'', u ''org_title'', u ''mit_number'',
        u ''mit_title'', u ''mit_notation'', u ''mi_modification'', u ''mi_number'',
        u ''verification_date'', u ''valid_date'', u ''result_docnum'', u ''sticker_num'',
        u ''applicability'']
   \<and> main ref_lib empty_world (Some (demo_fieldnames, [filled_row, demo_row, no_number_row])) =
     Ran (add_target_fields demo_fieldnames)
       (Inr \<lparr>stats = \<lparr>total = 3, already_filled = 1, found = 0, not_found = 1, skipped = 1\<rparr>,
             out_lines =
               [[PStr (u ''123''), PStr (u ''1-55''), PStr (u ''77''), PStr [], PStr [], PStr [],
                 PStr [], PStr [], PStr [], PStr [], PStr [], PStr [], PStr [], PStr []],
                [PStr (u ''123''), PStr [], PStr (u ''77''), PStr [], PStr [], PStr [],
                 PStr [], PStr [], PStr [], PStr [], PStr [], PStr [], PStr [], PStr []],
                [PStr (u ''  ''), PStr [], PStr (u ''77''), PStr [], PStr [], PStr [],
                 PStr [], PStr [], PStr [], PStr [], PStr [], PStr [], PStr [], PStr []]],
             trace = [Get (vri_request create_session (u ''123'') (u ''2026-01-15'')
                            [(u ''X-Requested-With'', u ''XMLHttpRequest'')]),
                      Sleep 1]\<rparr>)"
proof -
  have m: "main ref_lib empty_world (Some (demo_fieldnames, [filled_row, demo_row, no_number_row])) =
     Ran (add_target_fields demo_fieldnames)
       (Inr \<lparr>stats = \<lparr>total = 3, already_filled = 1, found = 0, not_found = 1, skipped = 1\<rparr>,
             out_lines =
               [[PStr (u ''123''), PStr (u ''1-55''), PStr (u ''77''), PStr [], PStr [], PStr [],
                 PStr [], PStr [], PStr [], PStr [], PStr [], PStr [], PStr [], PStr []],
                [PStr (u ''123''), PStr [], PStr (u ''77''), PStr [], PStr [], PStr [],
                 PStr [], PStr [], PStr [], PStr [], PStr [], PStr [], PStr [], PStr []],
                [PStr (u ''  ''), PStr [], PStr (u ''77''), PStr [], PStr [], PStr [],
                 PStr [], PStr [], PStr [], PStr [], PStr [], PStr [], PStr [], PStr []]],
             trace = [Get (vri_request create_session (u ''123'') (u ''2026-01-15'')
                            [(u ''X-Requested-With'', u ''XMLHttpRequest'')]),
                      Sleep 1]\<rparr>)"
    using three_rows_main by (simp only: demo_lines)
  have a: "add_target_fields demo_fieldnames =
       [device_column, u ''vri_id'', u ''arshin'', u ''org_title'', u ''mit_number'',
        u ''mit_title'', u ''mit_notation'', u ''mi_modification'', u ''mi_number'',
        u ''verification_date'', u ''valid_date'', u ''result_docnum'', u ''sticker_num'',
        u ''applicability'']"
    using output_columns[of demo_fieldnames "[filled_row, demo_row, no_number_row]" ref_lib
            empty_world "add_target_fields demo_fieldnames"]
    by (simp add: demo_fieldnames_def target_fields_def)
  show ?thesis
    using m a by simp
qed

section \<open>An item that is not a record\<close>

text \<open>
  \<open>get_latest_vri\<close> hands on whatever \<open>items[0]\<close> yields. It is annotated to return
  a dictionary or \<open>None\<close>, and it turns every exception of its body into \<open>None\<close>, but
  indexing a string or a list of strings raises nothing.
\<close>

lemma lookup_response_const:
  assumes "\<And>tr req. http wd tr req = Response st body" and "st \<noteq> 429"
  shows "lookup_response wd s tr mi = Response st body"
  using fetch_not_429[OF assms(1)[of tr] assms(2), of s mi]
  by (simp add: lookup_response_def)

lemma lookup_text:
  "lookup_response text_world s tr mi =
     Response 200 (Some (PDict [(u ''result'', PDict [(u ''items'', PStr (u ''abc''))])]))"
  by (rule lookup_response_const) (simp_all add: text_world_def)

lemma lookup_odd:
  "lookup_response odd_world s tr mi = Response 200 (Some (body_of [PStr (u ''x'')]))"
  by (rule lookup_response_const) (simp_all add: odd_world_def)

text \<open>
  C3 (a defect of the code). When the registry answers with a success status and a
  body whose \<open>items\<close> is a string that is not empty, which is a malformed body,
  \<open>get_latest_vri\<close> returns the first character of that string with the URL, and not
  \<open>None\<close>.
\<close>

theorem first_item_not_checked:
  assumes "lookup_response wd s tr mi = Response st (Some (PDict kv))"
    and "status_ok st"
    and "dget kv (u ''result'') (PDict []) = PDict rs"
    and "dget rs (u ''items'') (PList []) = PStr (c # cs)"
  shows "fst (get_latest_vri lib wd s tr mi) = (PStr [c], full_url lib mi (today wd tr))"
  using assms
  by (simp add: prod_eq_iff get_latest_vri_url get_latest_vri_item first_item_def dict_get_def
      index0_def)

theorem first_item_not_checked_witness:
  "lookup_response text_world create_session [] (u ''123'') =
     Response 200 (Some (PDict [(u ''result'', PDict [(u ''items'', PStr (u ''abc''))])]))
   \<and> status_ok 200
   \<and> fst (get_latest_vri ref_lib text_world create_session [] (u ''123''))
       = (PStr (u ''a''), full_url ref_lib (u ''123'') (u ''2026-01-15''))
   \<and> PStr (u ''a'') \<noteq> PNone"
proof -
  have ok: "status_ok 200" by (simp add: status_ok_def)
  have r: "dget [(u ''result'', PDict [(u ''items'', PStr (u ''abc''))])] (u ''result'') (PDict [])
             = PDict [(u ''items'', PStr (u ''abc''))]"
    by (simp add: dget_Cons)
  have i: "dget [(u ''items'', PStr (u ''abc''))] (u ''items'') (PList [])
             = PStr (of_char CHR ''a'' # u ''bc'')"
    by (simp add: dget_Cons u_simps)
  have a: "[of_char CHR ''a''] = u ''a''" by (simp add: u_simps)
  have t: "today text_world [] = u ''2026-01-15''" by (simp add: text_world_def)
  show ?thesis
    using first_item_not_checked[OF lookup_text ok r i, where lib = ref_lib and s = create_session
            and tr = "[]" and mi = "u ''123''"]
      lookup_text[of create_session "[]" "u ''123''"] ok
    by (simp only: a t) simp
qed

text \<open>
  C9 (a defect of the code). When the registry answers the lookup of a row with a
  success status and a list of items whose first is a string that is not empty,
  which is a malformed body, the found branch calls \<open>get\<close> on that string: the pass
  of the loop raises \<open>AttributeError\<close>, and so does the loop, which writes neither
  this row nor the rows after it.
\<close>

theorem malformed_item_aborts_run:
  assumes "dget r device_column (PStr []) = PStr d"
    and "strip d \<noteq> []"
    and "dget r (u ''vri_id'') (PStr []) = PStr v"
    and "strip v = []"
    and "lookup_response wd s (trace st) (strip d)
           = Response code (Some (body_of (PStr (c # cs) # items)))"
    and "status_ok code"
  shows "process_row lib wd s fieldnames st r = Inl AttributeError
         \<and> run_rows lib wd s fieldnames st (r # rs) = Inl AttributeError"
proof -
  have "fst (fst (get_latest_vri lib wd s (trace st) (strip d))) = PStr (c # cs)"
    using assms(5,6) by (simp add: get_latest_vri_item first_item_body_of)
  then have "process_row lib wd s fieldnames st r = Inl AttributeError"
    by (simp add: process_row_lookup[OF assms(1-4)] enrich_def)
  then show ?thesis by simp
qed

theorem malformed_item_aborts_run_witness:
  "dget demo_row device_column (PStr []) = PStr (u ''123'')
   \<and> strip (u ''123'') \<noteq> []
   \<and> dget demo_row (u ''vri_id'') (PStr []) = PStr []
   \<and> strip [] = []
   \<and> lookup_response odd_world create_session [] (u ''123'')
       = Response 200 (Some (body_of [PStr (u ''x'')]))
   \<and> status_ok 200
   \<and> process_row ref_lib odd_world create_session (add_target_fields demo_fieldnames)
         (state0 2) demo_row = Inl AttributeError
   \<and> main ref_lib odd_world (Some (demo_fieldnames, [demo_row, filled_row]))
       = Ran (add_target_fields demo_fieldnames) (Inl AttributeError)"
proof -
  have ok: "status_ok 200" by (simp add: status_ok_def)
  have n: "length [demo_row, filled_row] = 2" by simp
  have "main ref_lib odd_world (Some (demo_fieldnames, [demo_row, filled_row])) =
      Ran (add_target_fields demo_fieldnames)
        (run_rows ref_lib odd_world create_session (add_target_fields demo_fieldnames)
           (state0 (length [demo_row, filled_row])) [demo_row, filled_row])"
    by (rule main_nonempty) simp
  then have m: "main ref_lib odd_world (Some (demo_fieldnames, [demo_row, filled_row])) =
      Ran (add_target_fields demo_fieldnames)
        (run_rows ref_lib odd_world create_session (add_target_fields demo_fieldnames)
           (state0 2) [demo_row, filled_row])"
    by (simp only: n)
  have x: "u ''x'' = [of_char CHR ''x'']" by (simp add: u_simps)
  have l: "lookup_response odd_world create_session (trace (state0 2)) (strip (u ''123''))
             = Response 200 (Some (body_of (PStr (of_char CHR ''x'' # []) # [])))"
    by (simp only: lookup_odd x)
  show ?thesis
    using malformed_item_aborts_run[OF demo_row_facts(1-4) l ok, where lib = ref_lib
            and fieldnames = "add_target_fields demo_fieldnames" and rs = "[filled_row]"]
      demo_row_facts(1-4) lookup_odd[of create_session "[]" "u ''123''"] ok
    by (simp only: m simp_thms)
qed

end
